theory Spec2Isabelle
  imports
    Main
    "HOL-Library.Word"
    "HOL-Library.Char_ord"
    "HOL-Library.List_Lexorder"
    "HOL-Library.Mapping"
    "HOL-Library.AList_Mapping"
begin

section \<open>Process exit\<close>

text \<open>
  Error values. \<open>Err\<close> is an error returned by a library call; the other two are built
  by \<^verbatim>\<open>main\<close> with \<^verbatim>\<open>fmt.Errorf\<close>:
  \<^verbatim>\<open>"failed to load API package %q: %v"\<close> (package path, cause) and
  \<^verbatim>\<open>"interface %s was not found in %s or it's an empty interface"\<close>
  (interface name, package path).
\<close>

datatype error =
    Err string
  | LoadFailed string error
  | NotFound string string

text \<open>
  The tool leaves through \<^verbatim>\<open>os.Exit\<close> in three places: \<^verbatim>\<open>flag.Parse\<close> prints the
  error of a command line it cannot parse and then the usage text (\<open>FlagError\<close>), or
  the usage text alone when help is asked for; \<^verbatim>\<open>processFlags\<close> prints the usage text;
  and \<^verbatim>\<open>die\<close> prints an error on standard error. An exit is a value: what was printed
  and the exit code.
\<close>

datatype printed = UsageText | FlagError string | Stderr error

datatype exit = Exit printed nat

text \<open>\<^verbatim>\<open>func die(err error)\<close>: \<^verbatim>\<open>fmt.Fprintf(os.Stderr, "%v\n", err); os.Exit(1)\<close>.\<close>

definition die :: "error \<Rightarrow> exit" where
  "die err = Exit (Stderr err) 1"

section \<open>Command-line options\<close>

record options =
  InputFile :: string
  OutputFile :: string
  InterfaceName :: string
  StructName :: string
  Package :: string

text \<open>
  The five string flags that \<^verbatim>\<open>processFlags\<close> declares, one field per flag (the comment
  gives the source's variable). Each starts as the empty string, its declared default.
\<close>

record flags =
  flag_f :: string   \<comment> \<open>\<^verbatim>\<open>input\<close>\<close>
  flag_i :: string   \<comment> \<open>\<^verbatim>\<open>name\<close>\<close>
  flag_o :: string   \<comment> \<open>\<^verbatim>\<open>output\<close>\<close>
  flag_p :: string   \<comment> \<open>\<^verbatim>\<open>pkg\<close>\<close>
  flag_t :: string   \<comment> \<open>\<^verbatim>\<open>sname\<close>\<close>

definition defaults :: flags where
  "defaults = \<lparr> flag_f = [], flag_i = [], flag_o = [], flag_p = [], flag_t = [] \<rparr>"

definition defined :: "string \<Rightarrow> bool" where
  "defined name \<longleftrightarrow> name \<in> {''f'', ''i'', ''o'', ''p'', ''t''}"

definition set_flag :: "string \<Rightarrow> string \<Rightarrow> flags \<Rightarrow> flags" where
  "set_flag name value fl =
     (if name = ''f'' then fl\<lparr>flag_f := value\<rparr>
      else if name = ''i'' then fl\<lparr>flag_i := value\<rparr>
      else if name = ''o'' then fl\<lparr>flag_o := value\<rparr>
      else if name = ''p'' then fl\<lparr>flag_p := value\<rparr>
      else if name = ''t'' then fl\<lparr>flag_t := value\<rparr>
      else fl)"

text \<open>
  \<^verbatim>\<open>flag.Parse()\<close> on the command line, as the \<^verbatim>\<open>flag\<close> package of the standard library
  does it. An argument \<^verbatim>\<open>-name=value\<close> or \<^verbatim>\<open>--name=value\<close> sets a flag, \<^verbatim>\<open>-name\<close> takes
  the next argument as its value; the first argument that is not a flag, or \<^verbatim>\<open>--\<close>, ends
  the flags. The equals sign that separates name and value is not the first character of
  the name.
\<close>

definition split_value :: "string \<Rightarrow> string \<times> string option" where
  "split_value name =
     (case name of
        [] \<Rightarrow> ([], None)
      | c # cs \<Rightarrow>
          if CHR ''='' \<in> set cs
          then (c # takeWhile (\<lambda>x. x \<noteq> CHR ''='') cs,
                Some (tl (dropWhile (\<lambda>x. x \<noteq> CHR ''='') cs)))
          else (name, None))"

datatype flag_error = ErrHelp | Failf string

text \<open>
  The loop of \<^verbatim>\<open>Parse\<close>: the error it stops with, if any, and the values of the flag
  variables at that moment.
\<close>

fun parse_from :: "flags \<Rightarrow> string list \<Rightarrow> flag_error option \<times> flags" where
  "parse_from fl [] = (None, fl)"
| "parse_from fl (s # rest) =
     (if length s < 2 \<or> hd s \<noteq> CHR ''-'' then (None, fl)
      else if s = ''--'' then (None, fl)
      else
        let name = drop (if s ! 1 = CHR ''-'' then 2 else 1) s in
        if name = [] \<or> hd name = CHR ''-'' \<or> hd name = CHR ''=''
        then (Some (Failf (''bad flag syntax: '' @ s)), fl)
        else
          let name' = fst (split_value name); value = snd (split_value name) in
          if \<not> defined name'
          then (if name' = ''help'' \<or> name' = ''h'' then (Some ErrHelp, fl)
                else (Some (Failf (''flag provided but not defined: -'' @ name')), fl))
          else
            (case value of
               Some v \<Rightarrow> parse_from (set_flag name' v fl) rest
             | None \<Rightarrow>
                 (case rest of
                    [] \<Rightarrow> (Some (Failf (''flag needs an argument: -'' @ name')), fl)
                  | v # rest' \<Rightarrow> parse_from (set_flag name' v fl) rest')))"

definition Parse :: "string list \<Rightarrow> flag_error option \<times> flags" where
  "Parse args = parse_from defaults args"

text \<open>
  \<^verbatim>\<open>strings.HasSuffix(s, suffix)\<close> is
  \<^verbatim>\<open>len(s) >= len(suffix) && s[len(s)-len(suffix):] == suffix\<close>.
\<close>

definition HasSuffix :: "string \<Rightarrow> string \<Rightarrow> bool" where
  "HasSuffix s suffix \<longleftrightarrow>
     length s \<ge> length suffix \<and> drop (length s - length suffix) s = suffix"

text \<open>
  \<^verbatim>\<open>processFlags\<close> on the command line. The flag set is the default one, whose error
  handling is \<^verbatim>\<open>ExitOnError\<close>: a call for help exits with code 0 and any other error of
  the command line with code 2, both inside \<^verbatim>\<open>flag.Parse()\<close>.
\<close>

definition processFlags :: "string list \<Rightarrow> exit + options" where
  "processFlags args =
     (case Parse args of
        (Some ErrHelp, fl) \<Rightarrow> Inl (Exit UsageText 0)
      | (Some (Failf msg), fl) \<Rightarrow> Inl (Exit (FlagError msg) 2)
      | (None, fl) \<Rightarrow>
          if flag_p fl = [] \<or> flag_f fl = [] \<or> flag_o fl = [] \<or> flag_i fl = []
             \<or> \<not> HasSuffix (flag_o fl) ''.go''
          then Inl (Exit UsageText 1)
          else
            let sname' = (if flag_t fl = [] then flag_i fl @ ''Mock'' else flag_t fl)
            in Inr \<lparr> InputFile = flag_f fl,
                     OutputFile = flag_o fl,
                     InterfaceName = flag_i fl,
                     StructName = sname',
                     Package = flag_p fl \<rparr>)"

section \<open>Types and syntax trees, as the resolver sees them\<close>

text \<open>
  A \<^verbatim>\<open>*types.Signature\<close>: the parameters and the results, each a name and a type, and
  the variadic flag.
\<close>

record Signature =
  Params :: "(string \<times> string) list"
  Results :: "(string \<times> string) list"
  Variadic :: bool

text \<open>
  A \<^verbatim>\<open>types.Type\<close>. The type switch of \<^verbatim>\<open>Visit\<close> tells \<^verbatim>\<open>*types.Interface\<close> from
  everything else. An interface is the sequence of its methods (name and signature) as
  \<^verbatim>\<open>t.Method(0)\<close>, ..., \<^verbatim>\<open>t.Method(t.NumMethods() - 1)\<close> give them: the type checker's
  method set, which holds the methods of embedded interfaces too. A \<^verbatim>\<open>*types.Named\<close> is
  a declared type referred to by its name, here with the type it is declared as (its
  underlying type); it is what a type expression that is the name of a type resolves to.
\<close>

datatype Type =
    Interface "(string \<times> Signature) list"
  | Named string Type
  | OtherType

fun NumMethods :: "(string \<times> Signature) list \<Rightarrow> nat" where
  "NumMethods t = length t"

fun Method :: "(string \<times> Signature) list \<Rightarrow> nat \<Rightarrow> string \<times> Signature" where
  "Method t i = t ! i"

text \<open>
  An \<^verbatim>\<open>ast.Node\<close> with its children. \<^verbatim>\<open>Visit\<close> tells a \<^verbatim>\<open>*ast.TypeSpec\<close>, of which it
  reads \<^verbatim>\<open>ts.Name.Name\<close> and \<^verbatim>\<open>ts.Type\<close> (a type expression, here its text), from every
  other node. Among the other nodes a function (\<^verbatim>\<open>*ast.FuncDecl\<close>, \<^verbatim>\<open>*ast.FuncLit\<close>) is
  kept apart: what is declared below it is local to the function. A file is its root
  node, the \<^verbatim>\<open>*ast.File\<close>.
\<close>

type_synonym Expr = string

datatype Node =
    TypeSpec string Expr "Node list"
  | FuncNode "Node list"
  | OtherNode "Node list"

type_synonym File = Node

section \<open>The collaborators of one run\<close>

text \<open>
  What \<^verbatim>\<open>main\<close> has put into the \<^verbatim>\<open>*generator.Generator\<close>: the imports
  (\<^verbatim>\<open>ImportWithAlias\<close>), the package name, the template variables (\<^verbatim>\<open>SetVar\<close>), the
  header and the text rendered by \<^verbatim>\<open>ProcessTemplate\<close>.
\<close>

record Generator =
  gen_imports :: "(string \<times> string) list"
  gen_packageName :: string
  gen_vars :: "(string \<times> string) list"
  gen_header :: string
  gen_body :: string

text \<open>
  The library functions the tool calls, for one run: \<^verbatim>\<open>generator.PackageOf\<close>,
  \<^verbatim>\<open>filepath.Dir\<close>, the loader (\<^verbatim>\<open>cfg.Import\<close> of both package paths, then
  \<^verbatim>\<open>cfg.Load\<close>; the result gives \<^verbatim>\<open>prog.Package(path).Files\<close>),
  \<^verbatim>\<open>gen.ExpressionType\<close>, the template functions \<^verbatim>\<open>signature\<close> and
  \<^verbatim>\<open>(params _).Pass\<close>, and \<^verbatim>\<open>gen.WriteToFilename\<close>, which acts on the file system
  \<open>'fs\<close> and may fail. \<open>MapKeys\<close> is the run time's enumeration of the keys of a Go map
  (\<^verbatim>\<open>reflect.Value.MapKeys\<close>), which \<^verbatim>\<open>text/template\<close> asks for at each range over
  the map: the order is the run time's choice and may differ from call to call, so the
  enumeration depends on the number of the call.
\<close>

record 'fs env =
  PackageOf :: "string \<Rightarrow> error + string"
  Dir :: "string \<Rightarrow> string"
  Load :: "string \<Rightarrow> string \<Rightarrow> error + (string \<Rightarrow> File list)"
  ExpressionType :: "Expr \<Rightarrow> error + Type"
  signature :: "Signature \<Rightarrow> error + string"
  Pass :: "Signature \<Rightarrow> error + string"
  MapKeys :: "(string, Signature) mapping \<Rightarrow> nat \<Rightarrow> string list"
  WriteToFilename :: "Generator \<Rightarrow> string \<Rightarrow> 'fs \<Rightarrow> error option \<times> 'fs"

text \<open>
  The template function \<^verbatim>\<open>results\<close> gives the results of a signature as a parameter
  set with one element per result; the template only takes its length.
\<close>

definition results :: "Signature \<Rightarrow> (string \<times> string) list" where
  "results sg = Results sg"

section \<open>The resolver\<close>

record visitor =
  methods :: "(string, Signature) mapping"
  sourceInterface :: string

text \<open>
  \<^verbatim>\<open>for i := 0; i < t.NumMethods(); i++ { v.methods[t.Method(i).Name()] = ... }\<close>
\<close>

function processInterface_from :: "nat \<Rightarrow> visitor \<Rightarrow> (string \<times> Signature) list \<Rightarrow> visitor" where
  "processInterface_from i v t =
     (if i < NumMethods t
      then processInterface_from (Suc i)
             (v\<lparr>methods := Mapping.update (fst (Method t i)) (snd (Method t i)) (methods v)\<rparr>) t
      else v)"
  by pat_completeness auto
termination
  by (relation "measure (\<lambda>(i, v, t). length t - i)") auto

declare processInterface_from.simps [simp del]

definition processInterface :: "visitor \<Rightarrow> (string \<times> Signature) list \<Rightarrow> visitor" where
  "processInterface v t = processInterface_from 0 v t"

text \<open>
  \<^verbatim>\<open>Visit\<close> either exits (through \<^verbatim>\<open>die\<close>) or returns the visitor, with the methods
  of the interface added when the node declares the interface asked for.
\<close>

definition Visit :: "'fs env \<Rightarrow> visitor \<Rightarrow> Node \<Rightarrow> exit + visitor" where
  "Visit e v node =
     (case node of
        TypeSpec ts_Name ts_Type children \<Rightarrow>
          (case ExpressionType e ts_Type of
             Inl err \<Rightarrow> Inl (die err)
           | Inr exprType \<Rightarrow>
               (case exprType of
                  Interface t \<Rightarrow>
                    if ts_Name \<noteq> sourceInterface v then Inr v
                    else Inr (processInterface v t)
                | Named type_name underlying \<Rightarrow> Inr v
                | OtherType \<Rightarrow> Inr v))
      | FuncNode children \<Rightarrow> Inr v
      | OtherNode children \<Rightarrow> Inr v)"

text \<open>
  \<^verbatim>\<open>ast.Walk(v, node)\<close> calls \<^verbatim>\<open>v.Visit(node)\<close> and, as the visitor returned is never
  \<^verbatim>\<open>nil\<close>, walks every child of the node with it, in order. (It ends with
  \<^verbatim>\<open>Visit(nil)\<close>, which is not a type declaration and returns the visitor as it is.)
  An exit inside \<^verbatim>\<open>Visit\<close> ends the walk.
\<close>

fun Walk :: "'fs env \<Rightarrow> visitor \<Rightarrow> Node \<Rightarrow> exit + visitor"
  and Walk_children :: "'fs env \<Rightarrow> visitor \<Rightarrow> Node list \<Rightarrow> exit + visitor" where
  "Walk e v (TypeSpec ts_Name ts_Type children) =
     (case Visit e v (TypeSpec ts_Name ts_Type children) of
        Inl ex \<Rightarrow> Inl ex | Inr v' \<Rightarrow> Walk_children e v' children)"
| "Walk e v (FuncNode children) =
     (case Visit e v (FuncNode children) of
        Inl ex \<Rightarrow> Inl ex | Inr v' \<Rightarrow> Walk_children e v' children)"
| "Walk e v (OtherNode children) =
     (case Visit e v (OtherNode children) of
        Inl ex \<Rightarrow> Inl ex | Inr v' \<Rightarrow> Walk_children e v' children)"
| "Walk_children e v [] = Inr v"
| "Walk_children e v (child # children) =
     (case Walk e v child of Inl ex \<Rightarrow> Inl ex | Inr v' \<Rightarrow> Walk_children e v' children)"

text \<open>\<^verbatim>\<open>for _, file := range prog.Package(packagePath).Files { ast.Walk(v, file) }\<close>\<close>

fun Walk_Files :: "'fs env \<Rightarrow> visitor \<Rightarrow> File list \<Rightarrow> exit + visitor" where
  "Walk_Files e v [] = Inr v"
| "Walk_Files e v (file # files) =
     (case Walk e v file of Inl ex \<Rightarrow> Inl ex | Inr v' \<Rightarrow> Walk_Files e v' files)"

section \<open>The template\<close>

text \<open>
  The constant \<^verbatim>\<open>template\<close> is a \<^verbatim>\<open>text/template\<close> source. Its parse tree: literal
  text and the actions the template uses.
\<close>

datatype item =
    Text string
  | VarStructName                \<comment> \<open>\<^verbatim>\<open>{{$structName}}\<close>\<close>
  | VarMethodName                \<comment> \<open>\<^verbatim>\<open>{{$methodName}}\<close>\<close>
  | CallSignature                \<comment> \<open>\<^verbatim>\<open>{{signature $method}}\<close>\<close>
  | CallParamsPass               \<comment> \<open>\<^verbatim>\<open>{{(params $method).Pass}}\<close>\<close>
  | IfGtLenResults "item list"   \<comment> \<open>\<^verbatim>\<open>{{if gt (len (results $method)) 0}}\<close> ... \<^verbatim>\<open>{{end}}\<close>\<close>
  | RangeMethods "item list"     \<comment> \<open>\<^verbatim>\<open>{{range $methodName, $method := .}}\<close> ... \<^verbatim>\<open>{{end}}\<close>\<close>

text \<open>A line break followed by \<open>n\<close> tabs: the indentation of the template's lines.\<close>

definition nl :: "nat \<Rightarrow> string" where
  "nl n = CHR 0x0A # replicate n (CHR 0x09)"

text \<open>The template, piece by piece in the order of the source.\<close>

definition template_struct :: "item list" where
  \<open>template_struct =
    [Text (nl 1 @ ''type ''), VarStructName,
     Text ('' struct {'' @ nl 2 @ ''t *testing.T'' @ nl 2 @ ''m *sync.RWMutex'' @ nl 0 @ nl 2),
     RangeMethods
       [Text '' '', VarMethodName, Text ''Func func'', CallSignature, Text (nl 2)],
     Text (nl 2),
     RangeMethods
       [Text '' '', VarMethodName, Text (''Counter int'' @ nl 2)],
     Text (nl 1 @ ''}'' @ nl 0 @ nl 1)]\<close>

definition template_New :: "item list" where
  \<open>template_New =
    [Text ''func New'', VarStructName, Text ''(t *testing.T) *'', VarStructName,
     Text ('' {'' @ nl 2 @ ''return &''), VarStructName,
     Text (''{t: t, m: &sync.RWMutex{} }'' @ nl 1 @ ''}'' @ nl 0 @ nl 1)]\<close>

definition template_methods :: "item list" where
  \<open>template_methods =
    [RangeMethods
       [Text (nl 2 @ ''func (m *''), VarStructName, Text '') '', VarMethodName, CallSignature,
        Text ('' {'' @ nl 3 @ ''m.m.Lock()'' @ nl 3 @ ''m.''), VarMethodName,
        Text (''Counter += 1'' @ nl 3 @ ''m.m.Unlock()'' @ nl 0 @ nl 3 @ ''if m.''), VarMethodName,
        Text (''Func == nil {'' @ nl 4 @ ''m.t.Fatalf("Unexpected call to ''),
        VarStructName, Text ''.'', VarMethodName,
        Text (''")'' @ nl 3 @ ''}'' @ nl 0 @ nl 3),
        IfGtLenResults [Text (nl 3 @ ''return '')],
        Text '' m.'', VarMethodName, Text ''Func('', CallParamsPass,
        Text ('')'' @ nl 2 @ ''}'' @ nl 1)],
     Text (nl 0 @ nl 1)]\<close>

definition template_ValidateCallCounters :: "item list" where
  \<open>template_ValidateCallCounters =
    [Text ''func (m *'', VarStructName,
     Text ('') ValidateCallCounters() {'' @ nl 2 @
           ''m.t.Log("ValidateCallCounters is deprecated please use CheckMocksCalled")'' @
           nl 0 @ nl 2),
     RangeMethods
       [Text (nl 3 @ ''if m.''), VarMethodName, Text ''Func != nil && m.'', VarMethodName,
        Text (''Counter == 0 {'' @ nl 4 @ ''m.t.Error("Expected call to ''),
        VarStructName, Text ''.'', VarMethodName,
        Text (''")'' @ nl 3 @ ''}'' @ nl 2)],
     Text (nl 1 @ ''}'' @ nl 0 @ nl 1)]\<close>

definition template_CheckMocksCalled :: "item list" where
  \<open>template_CheckMocksCalled =
    [Text ''func (m *'', VarStructName,
     Text ('') CheckMocksCalled() {'' @ nl 2),
     RangeMethods
       [Text (nl 3 @ ''if m.''), VarMethodName, Text ''Func != nil && m.'', VarMethodName,
        Text (''Counter == 0 {'' @ nl 4 @ ''m.t.Error("Expected call to ''),
        VarStructName, Text ''.'', VarMethodName,
        Text (''")'' @ nl 3 @ ''}'' @ nl 2)],
     Text (nl 1 @ ''}'' @ nl 0 @ nl 1)]\<close>

definition template_AllMocksCalled :: "item list" where
  \<open>template_AllMocksCalled =
    [Text (''//AllMocksCalled returns true if all mocked methods were called before the call to AllMocksCalled,'' @
           nl 1 @
           ''//it can be used with assert/require, i.e. assert.True(mock.AllMocksCalled())'' @
           nl 1 @ ''func (m *''), VarStructName,
     Text ('') AllMocksCalled() bool {'' @ nl 2 @ ''m.m.RLock()'' @ nl 2 @
           ''defer m.m.RUnlock()'' @ nl 0 @ nl 2),
     RangeMethods
       [Text (nl 3 @ ''if m.''), VarMethodName, Text ''Func != nil && m.'', VarMethodName,
        Text (''Counter == 0 {'' @ nl 4 @ ''return false'' @ nl 3 @ ''}'' @ nl 2)],
     Text (nl 0 @ nl 2 @ ''return true'' @ nl 1 @ ''}'')]\<close>

definition template :: "item list" where
  "template = template_struct @ template_New @ template_methods
              @ template_ValidateCallCounters @ template_CheckMocksCalled
              @ template_AllMocksCalled"

section \<open>Template execution\<close>

text \<open>
  Execution as \<^verbatim>\<open>text/template\<close> does it: text is copied, a variable or a function call
  is replaced by its value, and execution stops with the error of the first function call
  that fails. \<open>cur\<close> is the binding of \<^verbatim>\<open>$methodName, $method\<close>, present inside a range;
  \<open>calls\<close> counts the calls of \<open>MapKeys\<close> made so far. A range over a map takes the keys
  as \<open>MapKeys\<close> enumerates them, sorts them (\<^verbatim>\<open>sortKeys\<close>) and visits each key with the
  value stored under it.
\<close>

definition sortKeys :: "string list \<Rightarrow> string list" where
  "sortKeys keys = sort keys"

definition range_entries ::
  "(string, Signature) mapping \<Rightarrow> string list \<Rightarrow> (string \<times> Signature) list" where
  "range_entries data keys = map (\<lambda>k. (k, the (Mapping.lookup data k))) (sortKeys keys)"

fun exec :: "'fs env \<Rightarrow> string \<Rightarrow> (string, Signature) mapping
               \<Rightarrow> (string \<times> Signature) option \<Rightarrow> item \<Rightarrow> nat \<Rightarrow> error + string \<times> nat"
  and exec_list :: "'fs env \<Rightarrow> string \<Rightarrow> (string, Signature) mapping
               \<Rightarrow> (string \<times> Signature) option \<Rightarrow> item list \<Rightarrow> nat \<Rightarrow> error + string \<times> nat"
  and exec_range :: "'fs env \<Rightarrow> string \<Rightarrow> (string, Signature) mapping
               \<Rightarrow> item list \<Rightarrow> (string \<times> Signature) list \<Rightarrow> nat \<Rightarrow> error + string \<times> nat"
where
  "exec e structName dot cur (Text s) calls = Inr (s, calls)"
| "exec e structName dot cur VarStructName calls = Inr (structName, calls)"
| "exec e structName dot cur VarMethodName calls =
     (case cur of None \<Rightarrow> Inl (Err ''undefined variable: $methodName'')
      | Some (methodName, method) \<Rightarrow> Inr (methodName, calls))"
| "exec e structName dot cur CallSignature calls =
     (case cur of None \<Rightarrow> Inl (Err ''undefined variable: $method'')
      | Some (methodName, method) \<Rightarrow>
          (case signature e method of Inl err \<Rightarrow> Inl err | Inr s \<Rightarrow> Inr (s, calls)))"
| "exec e structName dot cur CallParamsPass calls =
     (case cur of None \<Rightarrow> Inl (Err ''undefined variable: $method'')
      | Some (methodName, method) \<Rightarrow>
          (case Pass e method of Inl err \<Rightarrow> Inl err | Inr s \<Rightarrow> Inr (s, calls)))"
| "exec e structName dot cur (IfGtLenResults body) calls =
     (case cur of None \<Rightarrow> Inl (Err ''undefined variable: $method'')
      | Some (methodName, method) \<Rightarrow>
          if length (results method) > 0 then exec_list e structName dot cur body calls
          else Inr ([], calls))"
| "exec e structName dot cur (RangeMethods body) calls =
     exec_range e structName dot body (range_entries dot (MapKeys e dot calls)) (Suc calls)"
| "exec_list e structName dot cur [] calls = Inr ([], calls)"
| "exec_list e structName dot cur (i # is) calls =
     (case exec e structName dot cur i calls of
        Inl err \<Rightarrow> Inl err
      | Inr (s, calls') \<Rightarrow>
          (case exec_list e structName dot cur is calls' of
             Inl err \<Rightarrow> Inl err
           | Inr (s', calls'') \<Rightarrow> Inr (s @ s', calls'')))"
| "exec_range e structName dot body [] calls = Inr ([], calls)"
| "exec_range e structName dot body (entry # rest) calls =
     (case exec_list e structName dot (Some entry) body calls of
        Inl err \<Rightarrow> Inl err
      | Inr (s, calls') \<Rightarrow>
          (case exec_range e structName dot body rest calls' of
             Inl err \<Rightarrow> Inl err
           | Inr (s', calls'') \<Rightarrow> Inr (s @ s', calls'')))"

text \<open>
  \<^verbatim>\<open>gen.ProcessTemplate("interface", template, v.methods)\<close>: the template is executed
  on the method map, with the variable \<^verbatim>\<open>$structName\<close> as set by \<^verbatim>\<open>SetVar\<close>, and the
  text is added to the generator's body.
\<close>

definition ProcessTemplate ::
  "'fs env \<Rightarrow> Generator \<Rightarrow> item list \<Rightarrow> (string, Signature) mapping \<Rightarrow> error + Generator" where
  "ProcessTemplate e gen tmpl data =
     (case map_of (gen_vars gen) ''structName'' of
        None \<Rightarrow> Inl (Err ''undefined variable: $structName'')
      | Some structName \<Rightarrow>
          (case exec_list e structName data None tmpl 0 of
             Inl err \<Rightarrow> Inl err
           | Inr (s, calls) \<Rightarrow> Inr (gen\<lparr>gen_body := gen_body gen @ s\<rparr>)))"

section \<open>The program\<close>

definition header :: "string \<Rightarrow> string" where
  "header inputFile =
     nl 2 @ ''This is automatically generated code. Please DO NOT review/modify/comment.''
     @ nl 2 @ ''Original interface can be found in '' @ inputFile @ nl 1"

text \<open>
  \<^verbatim>\<open>main\<close> on the command line and a file system: the exit it ends with, if it exits,
  and the file system it leaves. Only \<^verbatim>\<open>WriteToFilename\<close> touches the file system.
\<close>

definition main :: "'fs env \<Rightarrow> string list \<Rightarrow> 'fs \<Rightarrow> exit option \<times> 'fs" where
  "main e args fs =
     (case processFlags args of
        Inl ex \<Rightarrow> (Some ex, fs)
      | Inr opts \<Rightarrow>
     (case PackageOf e (InputFile opts) of
        Inl err \<Rightarrow> (Some (die err), fs)
      | Inr packagePath \<Rightarrow>
     (case PackageOf e (Dir e (OutputFile opts)) of
        Inl err \<Rightarrow> (Some (die err), fs)
      | Inr destPackagePath \<Rightarrow>
     (case Load e packagePath destPackagePath of
        Inl err \<Rightarrow> (Some (die (LoadFailed packagePath err)), fs)
      | Inr prog \<Rightarrow>
     (let gen = \<lparr> gen_imports = [(destPackagePath, [])],
                  gen_packageName = Package opts,
                  gen_vars = [(''structName'', StructName opts),
                              (''interfaceName'', InterfaceName opts)],
                  gen_header = header (InputFile opts),
                  gen_body = [] \<rparr>;
          v = \<lparr> methods = Mapping.empty, sourceInterface = InterfaceName opts \<rparr>
      in
     (case Walk_Files e v (prog packagePath) of
        Inl ex \<Rightarrow> (Some ex, fs)
      | Inr v' \<Rightarrow>
          if Mapping.size (methods v') = 0
          then (Some (die (NotFound (InterfaceName opts) packagePath)), fs)
          else
     (case ProcessTemplate e gen template (methods v') of
        Inl err \<Rightarrow> (Some (die err), fs)
      | Inr gen' \<Rightarrow>
     (case WriteToFilename e gen' (OutputFile opts) fs of
        (Some err, fs') \<Rightarrow> (Some (die err), fs')
      | (None, fs') \<Rightarrow> (None, fs')))))))))"

section \<open>The generated mock\<close>

text \<open>
  The code the template produces for a struct name and a method map, as Go runs it.
  A \<^verbatim>\<open>*testing.T\<close> is the sequence of the calls made on it, oldest first.
  \<^verbatim>\<open>Fatalf\<close> ends the calling goroutine (\<^verbatim>\<open>runtime.Goexit\<close>); \<^verbatim>\<open>Error\<close> and
  \<^verbatim>\<open>Log\<close> return.
\<close>

datatype T_call = Log string | Error string | Fatalf string

text \<open>
  A function stored in a field \<^verbatim>\<open>{{$methodName}}Func\<close>: it takes the arguments, may
  act on the state \<open>'u\<close> of the test that supplied it, and returns its results.
\<close>

type_synonym ('v, 'u) func = "'v list \<Rightarrow> 'u \<Rightarrow> 'v list \<times> 'u"

text \<open>
  The generated struct: the field \<^verbatim>\<open>t\<close> (here \<open>t_calls\<close>), and for each method name the fields
  \<^verbatim>\<open>{{$methodName}}Func\<close> (\<open>None\<close> is \<^verbatim>\<open>nil\<close>) and \<^verbatim>\<open>{{$methodName}}Counter\<close>.
  A counter is a Go \<^verbatim>\<open>int\<close>: a signed machine integer of \<open>LENGTH('w)\<close> bits (32 or 64,
  by platform) whose arithmetic wraps around. The field \<^verbatim>\<open>m\<close> is a lock; every
  method releases what it acquires, and the model runs one call at a time.
\<close>

record (overloaded) ('v, 'u, 'w) Mock =
  t_calls :: "T_call list"
  Func :: "string \<Rightarrow> ('v, 'u) func option"
  Counter :: "string \<Rightarrow> 'w word"

text \<open>
  \<^verbatim>\<open>New{{$structName}}(t)\<close> sets \<^verbatim>\<open>t\<close> and \<^verbatim>\<open>m\<close>; the other fields have Go's zero
  values.
\<close>

definition New :: "T_call list \<Rightarrow> ('v, 'u, 'w::len) Mock" where
  "New t0 = \<lparr> t_calls = t0, Func = (\<lambda>methodName. None), Counter = (\<lambda>methodName. 0) \<rparr>"

datatype 'v outcome = Return "'v list" | Goexit

text \<open>The first three statements of a forwarding method.\<close>

definition increment :: "string \<Rightarrow> ('v, 'u, 'w::len) Mock \<Rightarrow> ('v, 'u, 'w) Mock" where
  "increment methodName m = m\<lparr>Counter := (Counter m)(methodName := Counter m methodName + 1)\<rparr>"

text \<open>
  The forwarding method is declared with the parameter list that \<^verbatim>\<open>signature\<close> prints,
  the one of the interface method: its parameters have the names the interface gives
  them, or none. \<^verbatim>\<open>(params $method).Pass\<close> prints these names, separated by commas,
  the last one followed by \<^verbatim>\<open>...\<close> when the method is variadic. So the call of the
  function field passes on the arguments of the parameters that have a name; for a
  parameter without a name, or with the blank name, the call has nothing to pass (and
  the Go compiler does not accept it).
\<close>

definition named :: "string \<Rightarrow> bool" where
  "named ident \<longleftrightarrow> ident \<noteq> [] \<and> ident \<noteq> ''_''"

definition passed :: "Signature \<Rightarrow> 'v list \<Rightarrow> 'v list" where
  "passed method args =
     map snd (filter (\<lambda>param. named (fst param)) (zip (map fst (Params method)) args))"

text \<open>
  The forwarding method generated for \<open>methodName\<close> with signature \<open>method\<close>, called
  with \<open>args\<close>, one argument for each parameter.
\<close>

definition Forward ::
  "string \<Rightarrow> string \<Rightarrow> Signature \<Rightarrow> 'v list \<Rightarrow> ('v, 'u, 'w::len) Mock \<times> 'u
     \<Rightarrow> 'v outcome \<times> ('v, 'u, 'w) Mock \<times> 'u" where
  "Forward structName methodName method args mu =
     (let m = increment methodName (fst mu); u = snd mu in
      case Func m methodName of
        None \<Rightarrow>
          (Goexit,
           m\<lparr>t_calls := t_calls m @ [Fatalf (''Unexpected call to '' @ structName @ ''.'' @ methodName)]\<rparr>,
           u)
      | Some f \<Rightarrow>
          (let (rs, u') = f (passed method args) u in
           if length (results method) > 0 then (Return rs, m, u')
           else (Return [], m, u')))"

text \<open>
  The entries of the method map in the order in which the ranges of the template put
  them into the generated code: sorted by method name.
\<close>

definition entries :: "(string, Signature) mapping \<Rightarrow> (string \<times> Signature) list" where
  "entries data =
     map (\<lambda>k. (k, the (Mapping.lookup data k))) (Mapping.ordered_keys data)"

text \<open>
  The three verification methods. Each is the body of its range, once per method name in
  the order of the range.
\<close>

fun ValidateCallCounters_range ::
  "string \<Rightarrow> string list \<Rightarrow> ('v, 'u, 'w::len) Mock \<Rightarrow> ('v, 'u, 'w) Mock" where
  "ValidateCallCounters_range structName [] m = m"
| "ValidateCallCounters_range structName (methodName # rest) m =
     ValidateCallCounters_range structName rest
       (if Func m methodName \<noteq> None \<and> Counter m methodName = 0
        then m\<lparr>t_calls := t_calls m @ [Error (''Expected call to '' @ structName @ ''.'' @ methodName)]\<rparr>
        else m)"

definition ValidateCallCounters ::
  "string \<Rightarrow> (string, Signature) mapping \<Rightarrow> ('v, 'u, 'w::len) Mock \<Rightarrow> ('v, 'u, 'w) Mock" where
  "ValidateCallCounters structName data m =
     ValidateCallCounters_range structName (map fst (entries data))
       (m\<lparr>t_calls := t_calls m @ [Log ''ValidateCallCounters is deprecated please use CheckMocksCalled'']\<rparr>)"

fun CheckMocksCalled_range ::
  "string \<Rightarrow> string list \<Rightarrow> ('v, 'u, 'w::len) Mock \<Rightarrow> ('v, 'u, 'w) Mock" where
  "CheckMocksCalled_range structName [] m = m"
| "CheckMocksCalled_range structName (methodName # rest) m =
     CheckMocksCalled_range structName rest
       (if Func m methodName \<noteq> None \<and> Counter m methodName = 0
        then m\<lparr>t_calls := t_calls m @ [Error (''Expected call to '' @ structName @ ''.'' @ methodName)]\<rparr>
        else m)"

definition CheckMocksCalled ::
  "string \<Rightarrow> (string, Signature) mapping \<Rightarrow> ('v, 'u, 'w::len) Mock \<Rightarrow> ('v, 'u, 'w) Mock" where
  "CheckMocksCalled structName data m =
     CheckMocksCalled_range structName (map fst (entries data)) m"

fun AllMocksCalled_range :: "string list \<Rightarrow> ('v, 'u, 'w::len) Mock \<Rightarrow> bool" where
  "AllMocksCalled_range [] m = True"
| "AllMocksCalled_range (methodName # rest) m =
     (if Func m methodName \<noteq> None \<and> Counter m methodName = 0 then False
      else AllMocksCalled_range rest m)"

definition AllMocksCalled :: "(string, Signature) mapping \<Rightarrow> ('v, 'u, 'w::len) Mock \<Rightarrow> bool" where
  "AllMocksCalled data m = AllMocksCalled_range (map fst (entries data)) m"

text \<open>
  The operations of a generated mock, and a test that performs a sequence of them.
  A call of a method the mock does not have is no operation.
\<close>

datatype 'v operation =
    Call string "'v list"
  | DoValidateCallCounters
  | DoCheckMocksCalled
  | DoAllMocksCalled

fun perform ::
  "string \<Rightarrow> (string, Signature) mapping \<Rightarrow> 'v operation
     \<Rightarrow> ('v, 'u, 'w::len) Mock \<times> 'u \<Rightarrow> ('v, 'u, 'w) Mock \<times> 'u" where
  "perform structName data (Call methodName args) mu =
     (case Mapping.lookup data methodName of
        None \<Rightarrow> mu
      | Some method \<Rightarrow> snd (Forward structName methodName method args mu))"
| "perform structName data DoValidateCallCounters mu =
     (ValidateCallCounters structName data (fst mu), snd mu)"
| "perform structName data DoCheckMocksCalled mu =
     (CheckMocksCalled structName data (fst mu), snd mu)"
| "perform structName data DoAllMocksCalled mu = mu"

fun perform_all ::
  "string \<Rightarrow> (string, Signature) mapping \<Rightarrow> 'v operation list
     \<Rightarrow> ('v, 'u, 'w::len) Mock \<times> 'u \<Rightarrow> ('v, 'u, 'w) Mock \<times> 'u" where
  "perform_all structName data [] mu = mu"
| "perform_all structName data (op # ops) mu =
     perform_all structName data ops (perform structName data op mu)"

section \<open>Vocabulary for the properties\<close>

text \<open>The nodes of a tree in the order in which the walk visits them.\<close>

fun visited :: "Node \<Rightarrow> Node list"
  and visited_children :: "Node list \<Rightarrow> Node list" where
  "visited (TypeSpec ts_Name ts_Type children) =
     TypeSpec ts_Name ts_Type children # visited_children children"
| "visited (FuncNode children) = FuncNode children # visited_children children"
| "visited (OtherNode children) = OtherNode children # visited_children children"
| "visited_children [] = []"
| "visited_children (child # children) = visited child @ visited_children children"

definition visited_Files :: "File list \<Rightarrow> Node list" where
  "visited_Files files = concat (map visited files)"

text \<open>\<^verbatim>\<open>Visit\<close> on each node of a sequence in turn, until one exits.\<close>

fun Visit_all :: "'fs env \<Rightarrow> visitor \<Rightarrow> Node list \<Rightarrow> exit + visitor" where
  "Visit_all e v [] = Inr v"
| "Visit_all e v (node # nodes) =
     (case Visit e v node of Inl ex \<Rightarrow> Inl ex | Inr v' \<Rightarrow> Visit_all e v' nodes)"

text \<open>
  The type declarations of package level, name and type expression: those not below a
  function.
\<close>

fun package_TypeSpecs :: "Node \<Rightarrow> (string \<times> Expr) list"
  and package_TypeSpecs_children :: "Node list \<Rightarrow> (string \<times> Expr) list" where
  "package_TypeSpecs (TypeSpec ts_Name ts_Type children) = [(ts_Name, ts_Type)]"
| "package_TypeSpecs (FuncNode children) = []"
| "package_TypeSpecs (OtherNode children) = package_TypeSpecs_children children"
| "package_TypeSpecs_children [] = []"
| "package_TypeSpecs_children (child # children) =
     package_TypeSpecs child @ package_TypeSpecs_children children"

text \<open>
  The methods of the interface that a node declares under the name \<open>src\<close>, if the node
  is a type declaration of that name whose type expression is an interface type.
\<close>

definition declared_methods :: "'fs env \<Rightarrow> string \<Rightarrow> Node \<Rightarrow> (string \<times> Signature) list option" where
  "declared_methods e src node =
     (case node of
        TypeSpec ts_Name ts_Type children \<Rightarrow>
          (if ts_Name = src
           then (case ExpressionType e ts_Type of
                   Inr (Interface ms) \<Rightarrow> Some ms
                 | _ \<Rightarrow> None)
           else None)
      | _ \<Rightarrow> None)"

text \<open>The type of the node's declaration, if it is one, is found without error.\<close>

definition resolves :: "'fs env \<Rightarrow> Node \<Rightarrow> bool" where
  "resolves e node =
     (case node of
        TypeSpec ts_Name ts_Type children \<Rightarrow>
          (case ExpressionType e ts_Type of Inl err \<Rightarrow> False | Inr T \<Rightarrow> True)
      | _ \<Rightarrow> True)"


text \<open>
  An enumeration of the keys of a map: every key once, in any order.
\<close>

definition enumerates :: "(string, Signature) mapping \<Rightarrow> string list \<Rightarrow> bool" where
  "enumerates data keys \<longleftrightarrow> distinct keys \<and> set keys = Mapping.keys data"

text \<open>
  The methods, in the order of the ranges, whose function is configured and whose counter
  is zero.
\<close>

definition uncalled :: "(string, Signature) mapping \<Rightarrow> ('v, 'u, 'w::len) Mock \<Rightarrow> string list" where
  "uncalled data m =
     filter (\<lambda>methodName. Func m methodName \<noteq> None \<and> Counter m methodName = 0)
       (Mapping.ordered_keys data)"

section \<open>Example packages\<close>

text \<open>
  The method \<^verbatim>\<open>Greet(name string) string\<close>, the same method declared without a parameter
  name, \<^verbatim>\<open>Greet(string) string\<close>, and two further methods, \<^verbatim>\<open>Bye()\<close> and
  \<^verbatim>\<open>Other(x int) bool\<close>.
\<close>

definition Greet_signature :: Signature where
  "Greet_signature = \<lparr> Params = [(''name'', ''string'')], Results = [([], ''string'')], Variadic = False \<rparr>"


definition Bye_signature :: Signature where
  "Bye_signature = \<lparr> Params = [], Results = [], Variadic = False \<rparr>"

definition Other_signature :: Signature where
  "Other_signature = \<lparr> Params = [(''x'', ''int'')], Results = [([], ''bool'')], Variadic = False \<rparr>"

text \<open>
  The libraries of a run on a package with the given files. The type expressions that
  occur are two interface types, a struct type, and the name \<^verbatim>\<open>Base\<close> of a type declared
  as the first interface type. The run time enumerates the keys of a map in ascending
  order at even calls and in descending order at odd ones. The file system is the list
  of the files written, newest first.
\<close>

definition commas :: "string list \<Rightarrow> string" where
  "commas xs = (case xs of [] \<Rightarrow> [] | x # rest \<Rightarrow> x @ concat (map (\<lambda>y. '', '' @ y) rest))"

definition print_var :: "string \<times> string \<Rightarrow> string" where
  "print_var p = (if fst p = [] then snd p else fst p @ '' '' @ snd p)"

definition example_env :: "File list \<Rightarrow> (string \<times> string) list env" where
  "example_env files =
     \<lparr> PackageOf = (\<lambda>path. Inr ''example/greeter''),
       Dir = (\<lambda>path. ''.''),
       Load = (\<lambda>packagePath destPackagePath. Inr (\<lambda>path. files)),
       ExpressionType =
         (\<lambda>expr. if expr = ''interface { Greet(name string) string }''
                  then Inr (Interface [(''Greet'', Greet_signature)])
                  else if expr = ''interface { Other(x int) bool }''
                  then Inr (Interface [(''Other'', Other_signature)])
                  else if expr = ''Base''
                  then Inr (Named ''Base'' (Interface [(''Greet'', Greet_signature)]))
                  else Inr OtherType),
       signature =
         (\<lambda>method. Inr (''('' @ commas (map print_var (Params method)) @ '') (''
                          @ commas (map print_var (Results method)) @ '')'')),
       Pass = (\<lambda>method. Inr (commas (map fst (Params method))
                             @ (if Variadic method then ''...'' else []))),
       MapKeys = (\<lambda>data calls. if even calls then Mapping.ordered_keys data
                                else rev (Mapping.ordered_keys data)),
       WriteToFilename = (\<lambda>gen filename fs. (None, (filename, gen_body gen) # fs)) \<rparr>"

text \<open>
  A package with the interface \<^verbatim>\<open>Greeter\<close> and a struct \<^verbatim>\<open>Config\<close>, and a function
  without local declarations.
\<close>

definition Greeter_Files :: "File list" where
  "Greeter_Files =
     [OtherNode
        [OtherNode [TypeSpec ''Greeter'' ''interface { Greet(name string) string }'' []],
         OtherNode [TypeSpec ''Config'' ''struct { Loud bool }'' []],
         FuncNode [OtherNode []]]]"

definition Greeter_env :: "(string \<times> string) list env" where
  "Greeter_env = example_env Greeter_Files"

text \<open>
  The same interface \<^verbatim>\<open>Greeter\<close> in a package one of whose functions declares a local
  interface of the same name.
\<close>

definition Shadowed_Files :: "File list" where
  "Shadowed_Files =
     [OtherNode
        [OtherNode [TypeSpec ''Greeter'' ''interface { Greet(name string) string }'' []],
         FuncNode [OtherNode [TypeSpec ''Greeter'' ''interface { Other(x int) bool }'' []]]]]"

text \<open>
  A package in which \<^verbatim>\<open>Greeter\<close> is declared as \<^verbatim>\<open>type Greeter Base\<close>, with
  \<^verbatim>\<open>Base\<close> the interface.
\<close>

definition Renamed_Files :: "File list" where
  "Renamed_Files =
     [OtherNode
        [OtherNode [TypeSpec ''Base'' ''interface { Greet(name string) string }'' []],
         OtherNode [TypeSpec ''Greeter'' ''Base'' []]]]"

text \<open>
  A package in which \<^verbatim>\<open>Greeter\<close> is a struct, and a function declares a local interface
  of that name.
\<close>

definition Struct_Files :: "File list" where
  "Struct_Files =
     [OtherNode
        [OtherNode [TypeSpec ''Greeter'' ''struct { Loud bool }'' []],
         FuncNode [OtherNode [TypeSpec ''Greeter'' ''interface { Other(x int) bool }'' []]]]]"

text \<open>
  The method map of \<^verbatim>\<open>Greeter\<close>; a function a test stores in \<^verbatim>\<open>GreetFunc\<close>, which
  counts in the test's state how often it ran; and the mock a test gets from the
  constructor and configures with that function.
\<close>

definition Greet_stub :: "(string, nat) func" where
  "Greet_stub args calls = (map (\<lambda>name. ''hello '' @ name) args, Suc calls)"

definition Greeter_methods :: "(string, Signature) mapping" where
  "Greeter_methods = Mapping.update ''Greet'' Greet_signature Mapping.empty"

definition Greeter_mock :: "(string, nat, 'w::len) Mock" where
  "Greeter_mock = (New [])\<lparr>Func := (\<lambda>methodName. None)(''Greet'' \<mapsto> Greet_stub)\<rparr>"

section \<open>Properties of flag processing\<close>

text \<open>
  C7, as stated, fails: a command line that \<^verbatim>\<open>flag.Parse()\<close> cannot parse ends the
  program inside \<^verbatim>\<open>flag.Parse()\<close> with exit code 2, also when required flags are
  empty. Here \<^verbatim>\<open>-p\<close> comes last, without its value; \<^verbatim>\<open>-i\<close>, \<^verbatim>\<open>-o\<close> and \<^verbatim>\<open>-p\<close> are
  empty.
\<close>

theorem processFlags_parse_exit:
  "Parse [''-f'', ''greeter.go'', ''-p'']
     = (Some (Failf ''flag needs an argument: -p''), defaults\<lparr>flag_f := ''greeter.go''\<rparr>)
   \<and> flag_p (defaults\<lparr>flag_f := ''greeter.go''\<rparr>) = []
   \<and> processFlags [''-f'', ''greeter.go'', ''-p'']
     = Inl (Exit (FlagError ''flag needs an argument: -p'') 2)"
  by (simp add: processFlags_def Parse_def defaults_def defined_def split_value_def set_flag_def Let_def)

text \<open>
  C7, amended. If the command line parses and any of the flags \<^verbatim>\<open>-f\<close>, \<^verbatim>\<open>-i\<close>, \<^verbatim>\<open>-o\<close>,
  \<^verbatim>\<open>-p\<close> is empty, or the \<^verbatim>\<open>-o\<close> path does not end in \<^verbatim>\<open>.go\<close>, \<^verbatim>\<open>processFlags\<close> prints
  the usage text and exits with code 1. A command line that asks for help exits with
  the usage text and code 0, one that does not parse with its error, the usage text and
  code 2.
\<close>

theorem processFlags_usage:
  "(Parse args = (None, fl)
      \<and> (flag_f fl = [] \<or> flag_i fl = [] \<or> flag_o fl = [] \<or> flag_p fl = []
          \<or> \<not> HasSuffix (flag_o fl) ''.go'')
      \<longrightarrow> processFlags args = Inl (Exit UsageText 1))
   \<and> (Parse args = (Some ErrHelp, fl) \<longrightarrow> processFlags args = Inl (Exit UsageText 0))
   \<and> (Parse args = (Some (Failf msg), fl) \<longrightarrow>
        processFlags args = Inl (Exit (FlagError msg) 2))"
  unfolding processFlags_def by auto

lemma Parse_example:
  "Parse [''-f'', ''greeter.go'', ''-i'', ''Greeter'', ''-o'', out, ''-p'', ''greeter'']
     = (None, \<lparr> flag_f = ''greeter.go'', flag_i = ''Greeter'', flag_o = out,
                flag_p = ''greeter'', flag_t = [] \<rparr>)"
  by (simp add: Parse_def defaults_def defined_def split_value_def set_flag_def Let_def)

theorem processFlags_usage_witness:
  "Parse [''-f'', ''greeter.go'', ''-i'', ''Greeter'', ''-o'', ''greeter_mock.txt'', ''-p'', ''greeter'']
     = (None, \<lparr> flag_f = ''greeter.go'', flag_i = ''Greeter'', flag_o = ''greeter_mock.txt'',
                flag_p = ''greeter'', flag_t = [] \<rparr>)
   \<and> \<not> HasSuffix ''greeter_mock.txt'' ''.go''
   \<and> processFlags [''-f'', ''greeter.go'', ''-i'', ''Greeter'', ''-o'', ''greeter_mock.txt'', ''-p'', ''greeter'']
     = Inl (Exit UsageText 1)
   \<and> Parse [''-h''] = (Some ErrHelp, defaults)
   \<and> processFlags [''-h''] = Inl (Exit UsageText 0)"
proof -
  let ?args = "[''-f'', ''greeter.go'', ''-i'', ''Greeter'', ''-o'', ''greeter_mock.txt'', ''-p'', ''greeter'']"
  let ?fl = "\<lparr> flag_f = ''greeter.go'', flag_i = ''Greeter'', flag_o = ''greeter_mock.txt'',
                flag_p = ''greeter'', flag_t = [] \<rparr>"
  have p: "Parse ?args = (None, ?fl)"
    by (rule Parse_example)
  have h: "\<not> HasSuffix ''greeter_mock.txt'' ''.go''"
    by (simp add: HasSuffix_def)
  have hlp: "Parse [''-h''] = (Some ErrHelp, defaults)"
    by (simp add: Parse_def defined_def split_value_def Let_def)
  from processFlags_usage [of ?args ?fl] processFlags_usage [of "[''-h'']" defaults] p h hlp
  show ?thesis by simp
qed

text \<open>
  C8. When \<^verbatim>\<open>processFlags\<close> returns options, the command line has parsed and the
  struct name is the interface name followed by \<^verbatim>\<open>Mock\<close> if the \<^verbatim>\<open>-t\<close> flag is empty,
  and the value of \<^verbatim>\<open>-t\<close> unchanged otherwise.
\<close>

theorem processFlags_StructName:
  assumes "processFlags args = Inr opts"
  shows "fst (Parse args) = None
       \<and> StructName opts =
           (if flag_t (snd (Parse args)) = [] then flag_i (snd (Parse args)) @ ''Mock''
            else flag_t (snd (Parse args)))"
  using assms unfolding processFlags_def
  by (auto simp: Let_def split: if_splits prod.splits option.splits flag_error.splits)

theorem processFlags_StructName_witness:
  "processFlags [''-f'', ''greeter.go'', ''-i'', ''Greeter'', ''-o'', ''greeter_mock.go'', ''-p'', ''greeter'']
     = Inr \<lparr> InputFile = ''greeter.go'', OutputFile = ''greeter_mock.go'',
             InterfaceName = ''Greeter'', StructName = ''GreeterMock'',
             Package = ''greeter'' \<rparr>
   \<and> processFlags [''-f'', ''greeter.go'', ''-i'', ''Greeter'', ''-o'', ''greeter_mock.go'', ''-p'', ''greeter'',
                   ''-t'', ''FakeGreeter'']
     = Inr \<lparr> InputFile = ''greeter.go'', OutputFile = ''greeter_mock.go'',
             InterfaceName = ''Greeter'', StructName = ''FakeGreeter'',
             Package = ''greeter'' \<rparr>"
proof -
  let ?args = "[''-f'', ''greeter.go'', ''-i'', ''Greeter'', ''-o'', ''greeter_mock.go'', ''-p'', ''greeter'']"
  let ?fl = "\<lparr> flag_f = ''greeter.go'', flag_i = ''Greeter'', flag_o = ''greeter_mock.go'',
                flag_p = ''greeter'', flag_t = [] \<rparr>"
  let ?args' = "[''-f'', ''greeter.go'', ''-i'', ''Greeter'', ''-o'', ''greeter_mock.go'', ''-p'', ''greeter'',
                ''-t'', ''FakeGreeter'']"
  let ?fl' = "?fl\<lparr> flag_t := ''FakeGreeter'' \<rparr>"
  have p: "Parse ?args = (None, ?fl)"
    by (rule Parse_example)
  have p': "Parse ?args' = (None, ?fl')"
    by (simp add: Parse_def defaults_def defined_def split_value_def set_flag_def Let_def)
  obtain opts where h: "processFlags ?args = Inr opts"
    by (simp add: processFlags_def p HasSuffix_def)
  obtain opts' where h': "processFlags ?args' = Inr opts'"
    by (simp add: processFlags_def p' HasSuffix_def)
  have "StructName opts = ''GreeterMock''"
    using processFlags_StructName [OF h] by (simp add: p)
  moreover have "StructName opts' = ''FakeGreeter''"
    using processFlags_StructName [OF h'] by (simp add: p')
  ultimately show ?thesis
    using h h' p p' by (auto simp: processFlags_def HasSuffix_def)
qed


section \<open>Properties of the resolver\<close>

lemma processInterface_from_fold:
  "processInterface_from i v ms =
     v\<lparr>methods := fold (\<lambda>p. Mapping.update (fst p) (snd p)) (drop i ms) (methods v)\<rparr>"
proof (induction i v ms rule: processInterface_from.induct)
  case (1 i v ms)
  show ?case
  proof (cases "i < length ms")
    case True
    then have d: "drop i ms = ms ! i # drop (Suc i) ms"
      by (simp add: Cons_nth_drop_Suc)
    from True 1 show ?thesis
      by (subst processInterface_from.simps) (simp add: d)
  next
    case False
    then show ?thesis
      by (subst processInterface_from.simps) simp
  qed
qed

lemma lookup_fold_update:
  "Mapping.lookup (fold (\<lambda>p. Mapping.update (fst p) (snd p)) xs m) k =
     (case map_of (rev xs) k of Some s \<Rightarrow> Some s | None \<Rightarrow> Mapping.lookup m k)"
proof (induction xs arbitrary: m)
  case Nil
  then show ?case by simp
next
  case (Cons x xs)
  show ?case
    by (simp add: Cons.IH map_of_append map_add_def lookup_update' split: option.splits)
qed

lemma keys_fold_update:
  "Mapping.keys (fold (\<lambda>p. Mapping.update (fst p) (snd p)) xs m) = Mapping.keys m \<union> fst ` set xs"
  by (induction xs arbitrary: m) auto

lemma processInterface_methods:
  "methods (processInterface v ms) = fold (\<lambda>p. Mapping.update (fst p) (snd p)) ms (methods v)"
  by (simp add: processInterface_def processInterface_from_fold)

lemma processInterface_sourceInterface:
  "sourceInterface (processInterface v ms) = sourceInterface v"
  by (simp add: processInterface_def processInterface_from_fold)

lemma processInterface_Nil: "processInterface v [] = v"
  by (simp add: processInterface_def processInterface_from_fold)

lemma Visit_all_append:
  "Visit_all e v (xs @ ys) =
     (case Visit_all e v xs of Inl ex \<Rightarrow> Inl ex | Inr v' \<Rightarrow> Visit_all e v' ys)"
  by (induction xs arbitrary: v) (auto split: sum.splits)

lemma Walk_visited:
  "Walk e v node = Visit_all e v (visited node)"
  "Walk_children e v children = Visit_all e v (visited_children children)"
  by (induction e v node and e v children rule: Walk_Walk_children.induct)
     (auto simp: Visit_all_append split: sum.splits)

lemma Walk_Files_visited: "Walk_Files e v files = Visit_all e v (visited_Files files)"
  by (induction files arbitrary: v)
     (auto simp: visited_Files_def Walk_visited Visit_all_append split: sum.splits)

lemma Visit_die_or:
  "(\<exists>err. Visit e v node = Inl (die err)) \<or>
   Visit e v node =
     Inr (case declared_methods e (sourceInterface v) node of
            None \<Rightarrow> v | Some ms \<Rightarrow> processInterface v ms)"
  by (auto simp: Visit_def declared_methods_def split: Node.splits sum.splits Type.splits)

lemma Visit_resolves:
  "resolves e node \<Longrightarrow>
   Visit e v node =
     Inr (case declared_methods e (sourceInterface v) node of
            None \<Rightarrow> v | Some ms \<Rightarrow> processInterface v ms)"
  by (auto simp: Visit_def resolves_def declared_methods_def
        split: Node.splits sum.splits Type.splits)

lemma Visit_all_inert:
  assumes "\<forall>node \<in> set nodes.
             resolves e node \<and> declared_methods e (sourceInterface v) node \<in> {None, Some []}"
  shows "Visit_all e v nodes = Inr v"
  using assms by (induction nodes) (auto simp: Visit_resolves processInterface_Nil)

lemma Visit_all_no_methods:
  assumes "\<forall>node \<in> set nodes. declared_methods e (sourceInterface v) node \<in> {None, Some []}"
  shows "(\<exists>err. Visit_all e v nodes = Inl (die err)) \<or> Visit_all e v nodes = Inr v"
  using assms
proof (induction nodes)
  case Nil
  then show ?case by simp
next
  case (Cons node nodes)
  from Cons.prems have d: "declared_methods e (sourceInterface v) node \<in> {None, Some []}"
    by simp
  from Visit_die_or [of e v node] show ?case
  proof
    assume "\<exists>err. Visit e v node = Inl (die err)"
    then show ?thesis by auto
  next
    assume "Visit e v node =
      Inr (case declared_methods e (sourceInterface v) node of
             None \<Rightarrow> v | Some ms \<Rightarrow> processInterface v ms)"
    with d have "Visit e v node = Inr v"
      by (auto simp: processInterface_Nil)
    with Cons show ?thesis by simp
  qed
qed

text \<open>
  C1, as stated, fails on two kinds of package. In the first, \<^verbatim>\<open>Greeter\<close> is the
  interface with the one method \<^verbatim>\<open>Greet\<close>, and a function declares a local interface
  of the same name: the walk visits both declarations and the resolver's map has the
  methods of both. In the second, \<^verbatim>\<open>Greeter\<close> is declared as \<^verbatim>\<open>type Greeter Base\<close>
  with \<^verbatim>\<open>Base\<close> that interface: the type expression resolves to a named type, not to
  an interface type, and the resolver's map stays empty.
\<close>

theorem resolver_merges_declarations:
  "package_TypeSpecs_children Shadowed_Files
     = [(''Greeter'', ''interface { Greet(name string) string }'')]
   \<and> ExpressionType (example_env Shadowed_Files) ''interface { Greet(name string) string }''
     = Inr (Interface [(''Greet'', Greet_signature)])
   \<and> Walk_Files (example_env Shadowed_Files)
        \<lparr>methods = Mapping.empty, sourceInterface = ''Greeter''\<rparr> Shadowed_Files
     = Inr \<lparr>methods = Mapping.update ''Other'' Other_signature
                        (Mapping.update ''Greet'' Greet_signature Mapping.empty),
            sourceInterface = ''Greeter''\<rparr>
   \<and> Mapping.keys (Mapping.update ''Other'' Other_signature
                        (Mapping.update ''Greet'' Greet_signature Mapping.empty))
     \<noteq> fst ` set [(''Greet'', Greet_signature)]
   \<and> package_TypeSpecs_children Renamed_Files
     = [(''Base'', ''interface { Greet(name string) string }''), (''Greeter'', ''Base'')]
   \<and> ExpressionType (example_env Renamed_Files) ''Base''
     = Inr (Named ''Base'' (Interface [(''Greet'', Greet_signature)]))
   \<and> Walk_Files (example_env Renamed_Files)
        \<lparr>methods = Mapping.empty, sourceInterface = ''Greeter''\<rparr> Renamed_Files
     = Inr \<lparr>methods = Mapping.empty, sourceInterface = ''Greeter''\<rparr>"
  by (simp add: Shadowed_Files_def Renamed_Files_def example_env_def Visit_def
        processInterface_def processInterface_from.simps)


text \<open>
  C1, amended. Take a package in which one visited type declaration has the requested
  name and a type expression that is an interface type, with the method sequence \<open>ms\<close>,
  and no other type declaration that the walk visits, local ones included, has that
  name and an interface type as its type expression. Starting from the empty map, as
  \<^verbatim>\<open>main\<close> does, the resolver either exits with the error of a type that is not found
  or returns, and it returns when the type of every declaration is found. The map it
  returns has exactly the method names of \<open>ms\<close> as keys, as many entries as there are
  distinct names, and stores under each name the signature of the declaration of that
  name (the last one in \<open>ms\<close>, should a name occur twice): when the names are distinct,
  every method of \<open>ms\<close> is stored with its own signature.
\<close>

theorem resolver_method_set:
  assumes files: "visited_Files files = pre @ TypeSpec (sourceInterface v) ty children # post"
      and decl: "ExpressionType e ty = Inr (Interface ms)"
      and others: "\<forall>node \<in> set (pre @ post). declared_methods e (sourceInterface v) node = None"
      and fresh: "methods v = Mapping.empty"
  shows "((\<exists>err. Walk_Files e v files = Inl (die err))
          \<or> Walk_Files e v files = Inr (processInterface v ms))
       \<and> ((\<forall>node \<in> set (pre @ post). resolves e node) \<longrightarrow>
            Walk_Files e v files = Inr (processInterface v ms))
       \<and> Mapping.keys (methods (processInterface v ms)) = fst ` set ms
       \<and> Mapping.size (methods (processInterface v ms)) = card (fst ` set ms)
       \<and> (\<forall>n. Mapping.lookup (methods (processInterface v ms)) n = map_of (rev ms) n)
       \<and> (distinct (map fst ms) \<longrightarrow>
            (\<forall>(n, sg) \<in> set ms. Mapping.lookup (methods (processInterface v ms)) n = Some sg))"
proof -
  let ?v' = "processInterface v ms"
  have src: "sourceInterface ?v' = sourceInterface v"
    by (rule processInterface_sourceInterface)
  have visit: "Visit e v (TypeSpec (sourceInterface v) ty children) = Inr ?v'"
    using decl by (simp add: Visit_def)
  have pre: "(\<exists>err. Visit_all e v pre = Inl (die err)) \<or> Visit_all e v pre = Inr v"
    using others by (intro Visit_all_no_methods) auto
  have post: "(\<exists>err. Visit_all e ?v' post = Inl (die err)) \<or> Visit_all e ?v' post = Inr ?v'"
    using others by (intro Visit_all_no_methods) (auto simp: src)
  have walk: "Walk_Files e v files =
      (case Visit_all e v pre of Inl ex \<Rightarrow> Inl ex
       | Inr w \<Rightarrow> Visit_all e w (TypeSpec (sourceInterface v) ty children # post))"
    by (simp add: Walk_Files_visited files Visit_all_append)
  have first: "(\<exists>err. Walk_Files e v files = Inl (die err)) \<or> Walk_Files e v files = Inr ?v'"
    using pre post by (auto simp: walk visit)
  have second: "Walk_Files e v files = Inr ?v'"
    if r: "\<forall>node \<in> set (pre @ post). resolves e node"
  proof -
    have "Visit_all e v pre = Inr v"
      using others r by (intro Visit_all_inert) auto
    moreover have "Visit_all e ?v' post = Inr ?v'"
      using others r by (intro Visit_all_inert) (auto simp: src)
    ultimately show ?thesis
      by (simp add: walk visit)
  qed
  have keys: "Mapping.keys (methods ?v') = fst ` set ms"
    by (simp add: processInterface_methods keys_fold_update fresh)
  have size: "Mapping.size (methods ?v') = card (fst ` set ms)"
    by (simp add: Mapping.size_def keys)
  have lookup: "Mapping.lookup (methods ?v') n = map_of (rev ms) n" for n
    by (simp add: processInterface_methods lookup_fold_update fresh split: option.splits)
  have "Mapping.lookup (methods ?v') n = Some sg"
    if "distinct (map fst ms)" "(n, sg) \<in> set ms" for n sg
    using that by (simp add: lookup distinct_rev rev_map [symmetric])
  with first second keys size lookup show ?thesis by blast
qed

theorem resolver_method_set_witness:
  "Walk_Files Greeter_env \<lparr>methods = Mapping.empty, sourceInterface = ''Greeter''\<rparr> Greeter_Files
     = Inr (processInterface \<lparr>methods = Mapping.empty, sourceInterface = ''Greeter''\<rparr>
              [(''Greet'', Greet_signature)])
   \<and> Mapping.keys (methods (processInterface \<lparr>methods = Mapping.empty, sourceInterface = ''Greeter''\<rparr>
              [(''Greet'', Greet_signature)])) = {''Greet''}
   \<and> Mapping.lookup (methods (processInterface \<lparr>methods = Mapping.empty, sourceInterface = ''Greeter''\<rparr>
              [(''Greet'', Greet_signature)])) ''Greet'' = Some Greet_signature"
proof -
  let ?v = "\<lparr>methods = Mapping.empty, sourceInterface = ''Greeter''\<rparr>"
  let ?ty = "''interface { Greet(name string) string }''"
  let ?decl = "TypeSpec ''Greeter'' ?ty []"
  let ?config = "TypeSpec ''Config'' ''struct { Loud bool }'' []"
  let ?pre = "[OtherNode [OtherNode [?decl], OtherNode [?config], FuncNode [OtherNode []]],
              OtherNode [?decl]]"
  let ?post = "[OtherNode [?config], ?config, FuncNode [OtherNode []], OtherNode []]"
  have files: "visited_Files Greeter_Files = ?pre @ TypeSpec (sourceInterface ?v) ?ty [] # ?post"
    by (simp add: Greeter_Files_def visited_Files_def)
  have decl: "ExpressionType Greeter_env ?ty = Inr (Interface [(''Greet'', Greet_signature)])"
    by (simp add: Greeter_env_def example_env_def)
  have others: "\<forall>node \<in> set (?pre @ ?post).
      declared_methods Greeter_env (sourceInterface ?v) node = None"
    by (simp add: declared_methods_def Greeter_env_def example_env_def)
  have res: "\<forall>node \<in> set (?pre @ ?post). resolves Greeter_env node"
    by (simp add: resolves_def Greeter_env_def example_env_def)
  have fresh: "methods ?v = Mapping.empty"
    by simp
  from resolver_method_set [OF files decl others fresh] res show ?thesis
    by simp
qed

section \<open>Properties of the program\<close>

lemma Walk_Files_no_methods:
  assumes "\<forall>node \<in> set (visited_Files files).
             declared_methods e (sourceInterface v) node \<in> {None, Some []}"
  shows "(\<exists>err. Walk_Files e v files = Inl (die err)) \<or> Walk_Files e v files = Inr v"
  using Visit_all_no_methods [OF assms] by (simp add: Walk_Files_visited)

text \<open>
  C4, as stated, fails: the walk also visits the type declarations local to a function.
  Here the requested name \<^verbatim>\<open>Greeter\<close> is a struct of the package, and a function declares
  a local interface \<^verbatim>\<open>Greeter\<close> with one method: \<^verbatim>\<open>main\<close> returns without an exit and
  has written the output file.
\<close>

theorem local_interface_is_mocked:
  "package_TypeSpecs_children Struct_Files = [(''Greeter'', ''struct { Loud bool }'')]
   \<and> ExpressionType (example_env Struct_Files) ''struct { Loud bool }'' = Inr OtherType
   \<and> map_prod id (map fst)
        (main (example_env Struct_Files)
           [''-f'', ''greeter.go'', ''-i'', ''Greeter'', ''-o'', ''greeter_mock.go'',
            ''-p'', ''greeter''] [])
     = (None, [''greeter_mock.go''])"
  by code_simp


text \<open>
  C4, amended. When the flags are valid and the package loads, and no type declaration
  of the requested name that the walk visits, of package level or local to a function,
  has an interface type with at least one method as its type expression (the name is
  absent, or names other kinds of type, or interfaces without methods), \<^verbatim>\<open>main\<close> ends
  through \<^verbatim>\<open>die\<close> (exit code 1) with the file system as it was; when moreover the type
  of every declaration is found, the error is the one of line 76,
  \<^verbatim>\<open>interface ... was not found in ... or it's an empty interface\<close>.
\<close>

theorem resolution_failure:
  assumes flags: "processFlags args = Inr opts"
      and pkg: "PackageOf e (InputFile opts) = Inr packagePath"
      and dest: "PackageOf e (Dir e (OutputFile opts)) = Inr destPackagePath"
      and load: "Load e packagePath destPackagePath = Inr prog"
      and none: "\<forall>node \<in> set (visited_Files (prog packagePath)).
                   declared_methods e (InterfaceName opts) node \<in> {None, Some []}"
  shows "(\<exists>err. main e args fs = (Some (Exit (Stderr err) 1), fs))
       \<and> ((\<forall>node \<in> set (visited_Files (prog packagePath)). resolves e node) \<longrightarrow>
            main e args fs =
              (Some (Exit (Stderr (NotFound (InterfaceName opts) packagePath)) 1), fs))"
proof -
  let ?v = "\<lparr> methods = Mapping.empty, sourceInterface = InterfaceName opts \<rparr>"
  have none': "\<forall>node \<in> set (visited_Files (prog packagePath)).
                 declared_methods e (sourceInterface ?v) node \<in> {None, Some []}"
    using none by simp
  have main_eq: "main e args fs =
      (case Walk_Files e ?v (prog packagePath) of
         Inl ex \<Rightarrow> (Some ex, fs)
       | Inr v' \<Rightarrow>
           if Mapping.size (methods v') = 0
           then (Some (die (NotFound (InterfaceName opts) packagePath)), fs)
           else
             (case ProcessTemplate e
                     \<lparr> gen_imports = [(destPackagePath, [])],
                       gen_packageName = Package opts,
                       gen_vars = [(''structName'', StructName opts),
                                   (''interfaceName'', InterfaceName opts)],
                       gen_header = header (InputFile opts),
                       gen_body = [] \<rparr> template (methods v') of
                Inl err \<Rightarrow> (Some (die err), fs)
              | Inr gen' \<Rightarrow>
                  (case WriteToFilename e gen' (OutputFile opts) fs of
                     (Some err, fs') \<Rightarrow> (Some (die err), fs')
                   | (None, fs') \<Rightarrow> (None, fs'))))"
    by (simp add: main_def flags pkg dest load Let_def)
  have first: "\<exists>err. main e args fs = (Some (die err), fs)"
    using Walk_Files_no_methods [OF none'] by (auto simp: main_eq)
  have second: "main e args fs = (Some (die (NotFound (InterfaceName opts) packagePath)), fs)"
    if "\<forall>node \<in> set (visited_Files (prog packagePath)). resolves e node"
  proof -
    have "Visit_all e ?v (visited_Files (prog packagePath)) = Inr ?v"
      using that none' by (intro Visit_all_inert) blast
    then show ?thesis
      by (simp add: main_eq Walk_Files_visited)
  qed
  from first second show ?thesis
    unfolding die_def by blast
qed

theorem resolution_failure_witness:
  "main Greeter_env
     [''-f'', ''greeter.go'', ''-i'', ''Config'', ''-o'', ''config_mock.go'', ''-p'', ''greeter''] []
   = (Some (Exit (Stderr (NotFound ''Config'' ''example/greeter'')) 1), [])"
proof -
  let ?args = "[''-f'', ''greeter.go'', ''-i'', ''Config'', ''-o'', ''config_mock.go'', ''-p'', ''greeter'']"
  let ?opts = "\<lparr> InputFile = ''greeter.go'', OutputFile = ''config_mock.go'',
       InterfaceName = ''Config'', StructName = ''ConfigMock'', Package = ''greeter'' \<rparr>"
  have flags: "processFlags ?args = Inr ?opts"
    by (simp add: processFlags_def Parse_def defaults_def defined_def split_value_def
          set_flag_def Let_def HasSuffix_def)
  have pkg: "PackageOf Greeter_env (InputFile ?opts) = Inr ''example/greeter''"
    by (simp add: Greeter_env_def example_env_def)
  have dest: "PackageOf Greeter_env (Dir Greeter_env (OutputFile ?opts)) = Inr ''example/greeter''"
    by (simp add: Greeter_env_def example_env_def)
  have load: "Load Greeter_env ''example/greeter'' ''example/greeter'' = Inr (\<lambda>path. Greeter_Files)"
    by (simp add: Greeter_env_def example_env_def)
  have none: "\<forall>node \<in> set (visited_Files ((\<lambda>path. Greeter_Files) ''example/greeter'')).
                declared_methods Greeter_env (InterfaceName ?opts) node \<in> {None, Some []}"
    by (simp add: Greeter_Files_def visited_Files_def declared_methods_def Greeter_env_def
          example_env_def)
  have res: "\<forall>node \<in> set (visited_Files ((\<lambda>path. Greeter_Files) ''example/greeter'')).
                resolves Greeter_env node"
    by (simp add: Greeter_Files_def visited_Files_def resolves_def Greeter_env_def example_env_def)
  from resolution_failure [OF flags pkg dest load none, of "[]"] res show ?thesis
    by simp
qed


section \<open>Properties of rendering\<close>

lemma map_fst_entries: "map fst (entries data) = Mapping.ordered_keys data"
  by (simp add: entries_def comp_def)

lemma set_ordered_keys: "finite (Mapping.keys data) \<Longrightarrow> set (Mapping.ordered_keys data) = Mapping.keys data"
  by (simp add: Mapping.ordered_keys_def)

lemma range_entries_enumerates:
  assumes "enumerates data keys"
  shows "range_entries data keys = entries data"
proof -
  from assms have d: "distinct keys" and s: "set keys = Mapping.keys data"
    by (simp_all add: enumerates_def)
  have fin: "finite (Mapping.keys data)"
    using s [symmetric] by simp
  have "sort keys = sorted_list_of_set (set keys)"
    using d by (simp add: sorted_list_of_set_sort_remdups distinct_remdups_id)
  also have "\<dots> = Mapping.ordered_keys data"
    using fin by (simp add: s Mapping.ordered_keys_def)
  finally show ?thesis
    by (simp add: range_entries_def entries_def sortKeys_def)
qed

lemma exec_agree:
  assumes "signature e1 = signature e2" and "Pass e1 = Pass e2"
      and "\<forall>calls. range_entries data (MapKeys e1 data calls)
                   = range_entries data (MapKeys e2 data calls)"
  shows "exec e1 structName data cur i calls = exec e2 structName data cur i calls"
    and "exec_list e1 structName data cur is calls = exec_list e2 structName data cur is calls"
    and "exec_range e1 structName data body es calls = exec_range e2 structName data body es calls"
  using assms
  by (induction e1 structName data cur i calls and e1 structName data cur "is" calls
        and e1 structName data body es calls rule: exec_exec_list_exec_range.induct)
     (auto split: sum.splits option.splits prod.splits)

text \<open>
  C5. Two runs of the renderer with the same generator (struct name, package name), the
  same template functions and the same method map give the same result, the rendered
  text or the error, whatever the orders in which the run time enumerates the keys of
  the map in the two runs, at each of the ranges: every range visits the entries of the
  map sorted by method name, each method once.
\<close>

theorem rendering_deterministic:
  assumes "signature e1 = signature e2" and "Pass e1 = Pass e2"
      and "\<forall>calls. enumerates data (MapKeys e1 data calls)"
      and "\<forall>calls. enumerates data (MapKeys e2 data calls)"
  shows "ProcessTemplate e1 gen template data = ProcessTemplate e2 gen template data
       \<and> (\<forall>calls. range_entries data (MapKeys e1 data calls) = entries data)
       \<and> sorted (map fst (entries data)) \<and> set (map fst (entries data)) = Mapping.keys data"
proof -
  have r1: "range_entries data (MapKeys e1 data calls) = entries data" for calls
    using assms(3) by (simp add: range_entries_enumerates)
  have r2: "range_entries data (MapKeys e2 data calls) = entries data" for calls
    using assms(4) by (simp add: range_entries_enumerates)
  have "exec_list e1 structName data None template 0
      = exec_list e2 structName data None template 0" for structName
    using assms(1,2) by (intro exec_agree) (simp_all add: r1 r2)
  then have "ProcessTemplate e1 gen template data = ProcessTemplate e2 gen template data"
    by (simp add: ProcessTemplate_def split: option.splits)
  moreover have "finite (Mapping.keys data)"
    using assms(3) by (metis List.finite_set enumerates_def)
  then have "set (map fst (entries data)) = Mapping.keys data"
    by (simp add: map_fst_entries set_ordered_keys)
  moreover have "sorted (map fst (entries data))"
    by (simp add: map_fst_entries)
  ultimately show ?thesis
    using r1 by simp
qed

theorem rendering_deterministic_witness:
  "MapKeys Greeter_env
     (Mapping.update ''Greet'' Greet_signature (Mapping.update ''Bye'' Bye_signature Mapping.empty)) 0
     = [''Bye'', ''Greet'']
   \<and> MapKeys (Greeter_env\<lparr>MapKeys := \<lambda>data calls. rev (Mapping.ordered_keys data)\<rparr>)
     (Mapping.update ''Greet'' Greet_signature (Mapping.update ''Bye'' Bye_signature Mapping.empty)) 0
     = [''Greet'', ''Bye'']
   \<and> ProcessTemplate Greeter_env
        \<lparr> gen_imports = [], gen_packageName = ''greeter'',
          gen_vars = [(''structName'', ''GreeterMock'')], gen_header = [], gen_body = [] \<rparr>
        template
        (Mapping.update ''Greet'' Greet_signature (Mapping.update ''Bye'' Bye_signature Mapping.empty))
     = ProcessTemplate (Greeter_env\<lparr>MapKeys := \<lambda>data calls. rev (Mapping.ordered_keys data)\<rparr>)
        \<lparr> gen_imports = [], gen_packageName = ''greeter'',
          gen_vars = [(''structName'', ''GreeterMock'')], gen_header = [], gen_body = [] \<rparr>
        template
        (Mapping.update ''Greet'' Greet_signature (Mapping.update ''Bye'' Bye_signature Mapping.empty))"
proof -
  let ?data = "Mapping.update ''Greet'' Greet_signature
                 (Mapping.update ''Bye'' Bye_signature Mapping.empty)"
  let ?e1 = "Greeter_env"
  let ?e2 = "Greeter_env\<lparr>MapKeys := \<lambda>data calls. rev (Mapping.ordered_keys data)\<rparr>"
  have keys: "Mapping.ordered_keys ?data = [''Bye'', ''Greet'']"
    by (simp add: ordered_keys_update)
  have k: "Mapping.keys ?data = {''Bye'', ''Greet''}"
    by auto
  have s: "signature ?e1 = signature ?e2" and p: "Pass ?e1 = Pass ?e2"
    by simp_all
  have m1: "\<forall>calls. enumerates ?data (MapKeys ?e1 ?data calls)"
    unfolding enumerates_def Greeter_env_def example_env_def
    by (auto simp: keys k)
  have m2: "\<forall>calls. enumerates ?data (MapKeys ?e2 ?data calls)"
    unfolding enumerates_def
    by (auto simp: keys k)
  have a: "MapKeys ?e1 ?data 0 = [''Bye'', ''Greet'']"
    by (simp add: Greeter_env_def example_env_def keys)
  have b: "MapKeys ?e2 ?data 0 = [''Greet'', ''Bye'']"
    by (simp add: keys)
  from rendering_deterministic [OF s p m1 m2] a b show ?thesis
    by simp
qed


section \<open>Properties of the forwarding methods\<close>

lemma Forward_nil:
  "Func m methodName = None \<Longrightarrow>
     Forward structName methodName method args (m, u) =
       (Goexit,
        (increment methodName m)\<lparr>t_calls := t_calls m @
           [Fatalf (''Unexpected call to '' @ structName @ ''.'' @ methodName)]\<rparr>,
        u)"
  by (simp add: Forward_def increment_def)










lemma Counter_Forward:
  "Counter (fst (snd (Forward structName methodName method args (m, u)))) n =
     (if n = methodName then Counter m n + 1 else Counter m n)"
  by (simp add: Forward_def increment_def Let_def split: option.splits prod.splits)

lemma Counter_after_calls:
  assumes "Mapping.lookup data n = Some method"
  shows "Counter (fst (perform_all structName data (replicate k (Call n args)) (m, u))) n
           = Counter m n + of_nat k"
proof (induction k arbitrary: m u)
  case 0
  then show ?case by simp
next
  case (Suc k)
  obtain m' u' where p: "perform structName data (Call n args) (m, u) = (m', u')"
    by (cases "perform structName data (Call n args) (m, u)")
  have "Counter m' n = Counter m n + 1"
    using p assms Counter_Forward [of structName n "method" args m u n]
    by (cases "Forward structName n method args (m, u)") auto
  with Suc [of m' u'] p show ?case by simp
qed

text \<open>
  C9. A call of a forwarding method adds one (in Go's \<^verbatim>\<open>int\<close> arithmetic) to the counter
  of its method and leaves the other counters as they were, whether a function is
  configured or not: when none is, the state in which the fatal failure is reported
  already has the counter incremented. So \<open>k\<close> calls in a row add \<open>k\<close>.
\<close>

theorem Forward_increments:
  "Counter (fst (snd (Forward structName methodName mth args (m, u)))) methodName
     = Counter m methodName + 1
   \<and> (\<forall>n. n \<noteq> methodName \<longrightarrow>
         Counter (fst (snd (Forward structName methodName mth args (m, u)))) n = Counter m n)
   \<and> (Func m methodName = None \<longrightarrow>
         Forward structName methodName mth args (m, u) =
           (Goexit,
            (increment methodName m)\<lparr>t_calls := t_calls (increment methodName m) @
               [Fatalf (''Unexpected call to '' @ structName @ ''.'' @ methodName)]\<rparr>,
            u)
         \<and> Counter (increment methodName m) methodName = Counter m methodName + 1)
   \<and> (Mapping.lookup data methodName = Some mth \<longrightarrow>
         Counter (fst (perform_all structName data (replicate k (Call methodName args)) (m, u)))
            methodName
           = Counter m methodName + of_nat k)"
proof -
  have one: "Counter (fst (snd (Forward structName methodName mth args (m, u)))) n
               = (if n = methodName then Counter m n + 1 else Counter m n)" for n
    by (rule Counter_Forward)
  have nil: "Forward structName methodName mth args (m, u) =
           (Goexit,
            (increment methodName m)\<lparr>t_calls := t_calls (increment methodName m) @
               [Fatalf (''Unexpected call to '' @ structName @ ''.'' @ methodName)]\<rparr>,
            u)
         \<and> Counter (increment methodName m) methodName = Counter m methodName + 1"
    if "Func m methodName = None"
    using that by (simp add: Forward_nil) (simp add: increment_def)
  have many: "Counter (fst (perform_all structName data (replicate k (Call methodName args)) (m, u)))
            methodName = Counter m methodName + of_nat k"
    if "Mapping.lookup data methodName = Some mth"
    using that by (rule Counter_after_calls)
  from one nil many show ?thesis by simp
qed


theorem Forward_increments_witness:
  "Forward ''GreeterMock'' ''Greet'' Greet_signature [''Ann'']
      ((New [] :: (string, nat, 64) Mock), 0)
     = (Goexit,
        (New [])\<lparr>Counter := (\<lambda>methodName. 0)(''Greet'' := 1),
                 t_calls := [Fatalf ''Unexpected call to GreeterMock.Greet'']\<rparr>,
        0)
   \<and> Counter (fst (snd (Forward ''GreeterMock'' ''Greet'' Greet_signature [''Ann'']
      ((New [] :: (string, nat, 64) Mock), 0)))) ''Greet'' = 1"
proof -
  let ?m0 = "New [] :: (string, nat, 64) Mock"
  have nil: "Func ?m0 ''Greet'' = None"
    by (simp add: New_def)
  from Forward_increments [where m = ?m0 and methodName = "''Greet''"
         and structName = "''GreeterMock''" and mth = Greet_signature
         and args = "[''Ann'']" and u = 0] nil
  show ?thesis
    by (simp add: increment_def New_def)
qed

section \<open>Properties of the verification methods\<close>

lemma AllMocksCalled_range_iff:
  "AllMocksCalled_range ns m \<longleftrightarrow> (\<forall>n \<in> set ns. Func m n \<noteq> None \<longrightarrow> Counter m n \<noteq> 0)"
  by (induction ns) auto

text \<open>
  C3. For a (finite) method map, \<^verbatim>\<open>AllMocksCalled\<close> returns true if and only if every
  method whose function field is not \<^verbatim>\<open>nil\<close> has a counter other than zero; two mocks
  that differ only in the counters of methods without a function give the same answer.
\<close>

theorem AllMocksCalled_iff:
  assumes "finite (Mapping.keys data)"
  shows "(AllMocksCalled data m \<longleftrightarrow>
            (\<forall>methodName \<in> Mapping.keys data. Func m methodName \<noteq> None \<longrightarrow> Counter m methodName \<noteq> 0))
       \<and> ((\<forall>methodName. Func m' methodName = Func m methodName)
            \<and> (\<forall>methodName. Func m methodName \<noteq> None \<longrightarrow> Counter m' methodName = Counter m methodName)
          \<longrightarrow> AllMocksCalled data m' = AllMocksCalled data m)"
  using assms
  by (auto simp: AllMocksCalled_def map_fst_entries AllMocksCalled_range_iff set_ordered_keys)

lemma Greeter_methods_keys: "Mapping.keys Greeter_methods = {''Greet''}"
  by (simp add: Greeter_methods_def)

theorem AllMocksCalled_iff_witness:
  "finite (Mapping.keys Greeter_methods)
   \<and> \<not> AllMocksCalled Greeter_methods (Greeter_mock :: (string, nat, 64) Mock)
   \<and> AllMocksCalled Greeter_methods (increment ''Greet'' Greeter_mock :: (string, nat, 64) Mock)
   \<and> AllMocksCalled Greeter_methods (New [] :: (string, nat, 64) Mock)"
proof -
  have fin: "finite (Mapping.keys Greeter_methods)"
    by (simp add: Greeter_methods_keys)
  have a: "\<not> AllMocksCalled Greeter_methods (Greeter_mock :: (string, nat, 64) Mock)"
    using AllMocksCalled_iff [OF fin, of "Greeter_mock :: (string, nat, 64) Mock" Greeter_mock]
    by (simp add: Greeter_methods_keys Greeter_mock_def New_def)
  have b: "AllMocksCalled Greeter_methods (increment ''Greet'' Greeter_mock :: (string, nat, 64) Mock)"
    using AllMocksCalled_iff [OF fin, of "increment ''Greet'' Greeter_mock :: (string, nat, 64) Mock" Greeter_mock]
    by (simp add: Greeter_methods_keys Greeter_mock_def New_def increment_def)
  have c: "AllMocksCalled Greeter_methods (New [] :: (string, nat, 64) Mock)"
    using AllMocksCalled_iff [OF fin, of "New [] :: (string, nat, 64) Mock" Greeter_mock]
    by (simp add: Greeter_methods_keys New_def)
  from fin a b c show ?thesis by simp
qed

lemma ranges_equal:
  "ValidateCallCounters_range structName ns m = CheckMocksCalled_range structName ns m"
  by (induction ns arbitrary: m) simp_all

lemma CheckMocksCalled_range_eq:
  "CheckMocksCalled_range structName ns m =
     m\<lparr>t_calls := t_calls m @
         map (\<lambda>n. Error (''Expected call to '' @ structName @ ''.'' @ n))
           (filter (\<lambda>n. Func m n \<noteq> None \<and> Counter m n = 0) ns)\<rparr>"
  by (induction ns arbitrary: m) simp_all

text \<open>
  C6. \<^verbatim>\<open>ValidateCallCounters\<close> does what \<^verbatim>\<open>CheckMocksCalled\<close> does after the
  deprecation notice has been logged, and \<^verbatim>\<open>CheckMocksCalled\<close> records one
  \<^verbatim>\<open>Error("Expected call to <structName>.<methodName>")\<close> for each method with a
  configured function and a zero counter and nothing else; the notice does not change
  which methods these are, they are reported once each, and for a finite method map they
  are precisely the methods of the map with a function and a zero counter.
\<close>

theorem ValidateCallCounters_CheckMocksCalled:
  "ValidateCallCounters structName data m =
     CheckMocksCalled structName data
       (m\<lparr>t_calls := t_calls m @
            [Log ''ValidateCallCounters is deprecated please use CheckMocksCalled'']\<rparr>)
   \<and> CheckMocksCalled structName data m =
       m\<lparr>t_calls := t_calls m @
           map (\<lambda>methodName. Error (''Expected call to '' @ structName @ ''.'' @ methodName))
             (uncalled data m)\<rparr>
   \<and> uncalled data (m\<lparr>t_calls := t_calls m @
            [Log ''ValidateCallCounters is deprecated please use CheckMocksCalled'']\<rparr>)
       = uncalled data m
   \<and> distinct (uncalled data m)
   \<and> (finite (Mapping.keys data) \<longrightarrow>
        set (uncalled data m) =
          {methodName \<in> Mapping.keys data. Func m methodName \<noteq> None \<and> Counter m methodName = 0})"
  by (auto simp: ValidateCallCounters_def CheckMocksCalled_def map_fst_entries ranges_equal
        CheckMocksCalled_range_eq uncalled_def set_ordered_keys)


theorem ValidateCallCounters_CheckMocksCalled_witness:
  "ValidateCallCounters ''GreeterMock'' Greeter_methods (Greeter_mock :: (string, nat, 64) Mock)
     = Greeter_mock\<lparr>t_calls :=
         [Log ''ValidateCallCounters is deprecated please use CheckMocksCalled'',
          Error ''Expected call to GreeterMock.Greet'']\<rparr>
   \<and> CheckMocksCalled ''GreeterMock'' Greeter_methods (Greeter_mock :: (string, nat, 64) Mock)
     = Greeter_mock\<lparr>t_calls := [Error ''Expected call to GreeterMock.Greet'']\<rparr>"
proof -
  let ?m = "Greeter_mock :: (string, nat, 64) Mock"
  let ?m' = "?m\<lparr>t_calls := t_calls ?m @
               [Log ''ValidateCallCounters is deprecated please use CheckMocksCalled'']\<rparr>"
  have keys: "Mapping.ordered_keys Greeter_methods = [''Greet'']"
    by (simp add: Greeter_methods_def ordered_keys_update)
  have u: "uncalled Greeter_methods ?m = [''Greet'']"
    by (simp add: uncalled_def keys Greeter_mock_def New_def)
  have t0: "t_calls ?m = []"
    by (simp add: Greeter_mock_def New_def)
  from ValidateCallCounters_CheckMocksCalled [of "''GreeterMock''" Greeter_methods ?m]
       ValidateCallCounters_CheckMocksCalled [of "''GreeterMock''" Greeter_methods ?m']
  show ?thesis
    by (simp add: u t0)
qed

section \<open>The fresh mock and its counters\<close>

lemma sint_succ:
  fixes c :: "'w::len word"
  assumes "c \<noteq> 2 ^ (LENGTH('w) - 1) - 1"
  shows "sint (c + 1) = sint c + 1"
proof -
  have "sint c \<noteq> 2 ^ (LENGTH('w) - 1) - 1"
  proof
    assume "sint c = 2 ^ (LENGTH('w) - 1) - 1"
    then have "word_of_int (sint c) = (word_of_int (2 ^ (LENGTH('w) - 1) - 1) :: 'w word)"
      by simp
    then have "c = 2 ^ (LENGTH('w) - 1) - 1"
      by simp
    with assms show False by simp
  qed
  moreover have "sint c < 2 ^ (LENGTH('w) - 1)"
    by (rule sint_lt)
  ultimately have up: "sint c + 1 < 2 ^ (LENGTH('w) - 1)"
    by simp
  have lo: "- (2 ^ (LENGTH('w) - 1)) \<le> sint c + 1"
    using sint_ge [of c] by simp
  have "c + 1 = word_of_int (sint c + 1)"
    by simp
  then have "sint (c + 1) = sint (word_of_int (sint c + 1) :: 'w word)"
    by simp
  also have "\<dots> = signed_take_bit (LENGTH('w) - 1) (sint c + 1)"
    by (simp only: sint_sbintrunc')
  also have "\<dots> = sint c + 1"
    using lo up by (rule signed_take_bit_int_eq_self)
  finally show ?thesis .
qed

lemma CheckMocksCalled_Counter: "Counter (CheckMocksCalled structName data m) = Counter m"
  by (simp add: CheckMocksCalled_def CheckMocksCalled_range_eq)

lemma ValidateCallCounters_Counter: "Counter (ValidateCallCounters structName data m) = Counter m"
  by (simp add: ValidateCallCounters_def ranges_equal CheckMocksCalled_range_eq)

lemma Counter_perform:
  "Counter (fst (perform structName data op (m, u))) n = Counter m n
   \<or> Counter (fst (perform structName data op (m, u))) n = Counter m n + 1"
  by (cases op)
     (auto simp: Counter_Forward CheckMocksCalled_Counter ValidateCallCounters_Counter
           split: option.splits)

lemma Counter_one_more_call:
  assumes "Mapping.lookup data n = Some method"
  shows "Counter (fst (perform structName data (Call n args)
            (perform_all structName data (replicate k (Call n args)) (m, u)))) n
           = Counter m n + of_nat k + 1"
proof -
  obtain m' u' where p: "perform_all structName data (replicate k (Call n args)) (m, u) = (m', u')"
    by (cases "perform_all structName data (replicate k (Call n args)) (m, u)")
  have "Counter m' n = Counter m n + of_nat k"
    using Counter_after_calls [OF assms, of structName k args m u] p by simp
  then show ?thesis
    using Counter_Forward [of structName n "method" args "m'" "u'" n] by (simp add: p assms)
qed

text \<open>
  C10, as stated, fails: a counter is a machine integer, and the increment of a counter
  that holds the largest \<^verbatim>\<open>int\<close> wraps around to the smallest. Here a test configures
  \<^verbatim>\<open>GreetFunc\<close> on a fresh mock and calls \<^verbatim>\<open>Greet\<close> as many times as the largest
  \<^verbatim>\<open>int\<close> (\<open>2\<^sup>6\<^sup>3 - 1\<close> where \<^verbatim>\<open>int\<close> has 64 bits, \<open>2\<^sup>3\<^sup>1 - 1\<close> where it has 32); the
  next call decreases \<^verbatim>\<open>GreetCounter\<close>.
\<close>

theorem counter_decreases:
  "sint (Counter (fst (perform ''GreeterMock'' Greeter_methods (Call ''Greet'' [''Ann''])
            (perform_all ''GreeterMock'' Greeter_methods
               (replicate (2 ^ 63 - 1) (Call ''Greet'' [''Ann'']))
               (Greeter_mock :: (string, nat, 64) Mock, 0)))) ''Greet'')
   < sint (Counter (fst
            (perform_all ''GreeterMock'' Greeter_methods
               (replicate (2 ^ 63 - 1) (Call ''Greet'' [''Ann'']))
               (Greeter_mock :: (string, nat, 64) Mock, 0))) ''Greet'')
   \<and>
   sint (Counter (fst (perform ''GreeterMock'' Greeter_methods (Call ''Greet'' [''Ann''])
            (perform_all ''GreeterMock'' Greeter_methods
               (replicate (2 ^ 31 - 1) (Call ''Greet'' [''Ann'']))
               (Greeter_mock :: (string, nat, 32) Mock, 0)))) ''Greet'')
   < sint (Counter (fst
            (perform_all ''GreeterMock'' Greeter_methods
               (replicate (2 ^ 31 - 1) (Call ''Greet'' [''Ann'']))
               (Greeter_mock :: (string, nat, 32) Mock, 0))) ''Greet'')"
proof -
  have lk: "Mapping.lookup Greeter_methods ''Greet'' = Some Greet_signature"
    by (simp add: Greeter_methods_def)
  have zero: "Counter (Greeter_mock :: (string, nat, 'w::len) Mock) ''Greet'' = 0"
    by (simp add: Greeter_mock_def New_def)
  have w64: "sint (0 + of_nat (2 ^ 63 - 1) + 1 :: 64 word) < sint (0 + of_nat (2 ^ 63 - 1) :: 64 word)"
    by simp
  have w32: "sint (0 + of_nat (2 ^ 31 - 1) + 1 :: 32 word) < sint (0 + of_nat (2 ^ 31 - 1) :: 32 word)"
    by simp
  from w64 w32 show ?thesis
    by (simp only: Counter_one_more_call [OF lk] Counter_after_calls [OF lk] zero)
qed

lemma perform_all_snoc:
  "perform_all structName data (ops @ [op]) mu
     = perform structName data op (perform_all structName data ops mu)"
  by (induction ops arbitrary: mu) simp_all

lemma Counter_perform_all:
  "\<exists>j \<le> length ops.
     Counter (fst (perform_all structName data ops (m, u))) n = Counter m n + of_nat j"
proof (induction ops arbitrary: m u)
  case Nil
  then show ?case by simp
next
  case (Cons op ops)
  obtain m' u' where p: "perform structName data op (m, u) = (m', u')"
    by (cases "perform structName data op (m, u)")
  from Cons.IH [of m' u'] obtain j where j: "j \<le> length ops"
    "Counter (fst (perform_all structName data ops (m', u'))) n = Counter m' n + of_nat j"
    by blast
  from Counter_perform [of structName data op m u n] p
  have "Counter m' n = Counter m n \<or> Counter m' n = Counter m n + 1"
    by simp
  then show ?case
  proof
    assume "Counter m' n = Counter m n"
    with j p have "j \<le> length (op # ops) \<and>
        Counter (fst (perform_all structName data (op # ops) (m, u))) n = Counter m n + of_nat j"
      by simp
    then show ?thesis by blast
  next
    assume "Counter m' n = Counter m n + 1"
    with j p have "Suc j \<le> length (op # ops) \<and>
        Counter (fst (perform_all structName data (op # ops) (m, u))) n = Counter m n + of_nat (Suc j)"
      by simp
    then show ?thesis by blast
  qed
qed

lemma sint_of_nat:
  assumes "j < 2 ^ (LENGTH('w::len) - 1)"
  shows "sint (of_nat j :: 'w word) = int j"
proof -
  have up: "int j < 2 ^ (LENGTH('w) - 1)"
    using assms by (metis of_nat_less_iff of_nat_numeral of_nat_power)
  have lo: "- (2 ^ (LENGTH('w) - 1)) \<le> int j"
    by (rule order_trans [of _ 0]) simp_all
  have "sint (of_nat j :: 'w word) = sint (word_of_int (int j) :: 'w word)"
    by simp
  also have "\<dots> = signed_take_bit (LENGTH('w) - 1) (int j)"
    by (simp only: sint_sbintrunc')
  also have "\<dots> = int j"
    using lo up by (rule signed_take_bit_int_eq_self)
  finally show ?thesis .
qed

lemma fresh_counter_monotone:
  fixes u :: 'u
  assumes "length ops < 2 ^ (LENGTH('w::len) - 1) - 1"
  shows "sint (Counter (fst (perform_all structName data ops (New t0 :: ('v, 'u, 'w) Mock, u))) n)
       \<le> sint (Counter (fst (perform_all structName data (ops @ [op])
                  (New t0 :: ('v, 'u, 'w) Mock, u))) n)"
proof -
  let ?mu = "perform_all structName data ops (New t0 :: ('v, 'u, 'w) Mock, u)"
  obtain j where j: "j \<le> length ops" "Counter (fst ?mu) n = of_nat j"
    using Counter_perform_all [of ops structName data "New t0 :: ('v, 'u, 'w) Mock" u n]
    by (auto simp: New_def)
  from j assms have small: "j < 2 ^ (LENGTH('w) - 1)" "Suc j < 2 ^ (LENGTH('w) - 1)"
    by simp_all
  have "Counter (fst (perform structName data op ?mu)) n = Counter (fst ?mu) n
      \<or> Counter (fst (perform structName data op ?mu)) n = Counter (fst ?mu) n + 1"
    using Counter_perform [of structName data op "fst ?mu" "snd ?mu" n] by simp
  then have "Counter (fst (perform structName data op ?mu)) n = of_nat j
      \<or> Counter (fst (perform structName data op ?mu)) n = of_nat (Suc j)"
    by (auto simp: j add.commute)
  then have "sint (Counter (fst ?mu) n) \<le> sint (Counter (fst (perform structName data op ?mu)) n)"
    using sint_of_nat [OF small(1)] sint_of_nat [OF small(2)] j(2) by auto
  then show ?thesis
    by (simp only: perform_all_snoc)
qed


text \<open>
  C10, amended. On a mock freshly returned by the constructor every function field is
  \<^verbatim>\<open>nil\<close> and every counter is zero; \<^verbatim>\<open>AllMocksCalled\<close> returns true,
  \<^verbatim>\<open>CheckMocksCalled\<close> records nothing and \<^verbatim>\<open>ValidateCallCounters\<close> records only its
  deprecation notice. In any state, a generated operation leaves each counter unchanged
  or adds one to it, so it does not decrease a counter that is below the largest
  \<^verbatim>\<open>int\<close>; in particular, on a fresh mock no operation decreases a counter as long as
  fewer operations than the largest \<^verbatim>\<open>int\<close> have been performed.
\<close>

theorem fresh_mock:
  fixes m :: "('v, 'u, 'w::len) Mock"
  shows "Func (New t0 :: ('v, 'u, 'w) Mock) n = None
       \<and> Counter (New t0 :: ('v, 'u, 'w) Mock) n = 0
       \<and> AllMocksCalled data (New t0 :: ('v, 'u, 'w) Mock)
       \<and> CheckMocksCalled structName data (New t0 :: ('v, 'u, 'w) Mock) = New t0
       \<and> ValidateCallCounters structName data (New t0 :: ('v, 'u, 'w) Mock) =
           (New t0)\<lparr>t_calls := t0 @
              [Log ''ValidateCallCounters is deprecated please use CheckMocksCalled'']\<rparr>
       \<and> (Counter (fst (perform structName data op (m, u))) n = Counter m n
          \<or> Counter (fst (perform structName data op (m, u))) n = Counter m n + 1)
       \<and> (Counter m n \<noteq> 2 ^ (LENGTH('w) - 1) - 1 \<longrightarrow>
            sint (Counter m n) \<le> sint (Counter (fst (perform structName data op (m, u))) n))
       \<and> (length ops < 2 ^ (LENGTH('w) - 1) - 1 \<longrightarrow>
            sint (Counter (fst (perform_all structName data ops
                    (New t0 :: ('v, 'u, 'w) Mock, u))) n)
            \<le> sint (Counter (fst (perform_all structName data (ops @ [op])
                    (New t0 :: ('v, 'u, 'w) Mock, u))) n))"
proof -
  have a: "Func (New t0 :: ('v, 'u, 'w) Mock) n = None" "Counter (New t0 :: ('v, 'u, 'w) Mock) n = 0"
    by (simp_all add: New_def)
  have b: "AllMocksCalled data (New t0 :: ('v, 'u, 'w) Mock)"
    by (simp add: AllMocksCalled_def AllMocksCalled_range_iff New_def)
  have c: "CheckMocksCalled structName data (New t0 :: ('v, 'u, 'w) Mock) = New t0"
    by (simp add: CheckMocksCalled_def CheckMocksCalled_range_eq New_def)
  have d: "ValidateCallCounters structName data (New t0 :: ('v, 'u, 'w) Mock) =
           (New t0)\<lparr>t_calls := t0 @
              [Log ''ValidateCallCounters is deprecated please use CheckMocksCalled'']\<rparr>"
    by (simp add: ValidateCallCounters_def ranges_equal CheckMocksCalled_range_eq New_def)
  have e: "Counter (fst (perform structName data op (m, u))) n = Counter m n
          \<or> Counter (fst (perform structName data op (m, u))) n = Counter m n + 1"
    by (rule Counter_perform)
  have f: "sint (Counter m n) \<le> sint (Counter (fst (perform structName data op (m, u))) n)"
    if "Counter m n \<noteq> 2 ^ (LENGTH('w) - 1) - 1"
    using e sint_succ [OF that] by auto
  have g: "sint (Counter (fst (perform_all structName data ops
                    (New t0 :: ('v, 'u, 'w) Mock, u))) n)
            \<le> sint (Counter (fst (perform_all structName data (ops @ [op])
                    (New t0 :: ('v, 'u, 'w) Mock, u))) n)"
    if "length ops < 2 ^ (LENGTH('w) - 1) - 1"
    using that by (rule fresh_counter_monotone)
  from a b c d e f g show ?thesis by blast
qed

theorem fresh_mock_witness:
  "Counter (Greeter_mock :: (string, nat, 64) Mock) ''Greet'' \<noteq> 2 ^ (LENGTH(64) - 1) - 1
   \<and> sint (Counter (Greeter_mock :: (string, nat, 64) Mock) ''Greet'')
       \<le> sint (Counter (fst (perform ''GreeterMock'' Greeter_methods (Call ''Greet'' [''Ann''])
                  (Greeter_mock :: (string, nat, 64) Mock, 0))) ''Greet'')
   \<and> AllMocksCalled Greeter_methods (New [] :: (string, nat, 64) Mock)"
proof -
  let ?m = "Greeter_mock :: (string, nat, 64) Mock"
  have h: "Counter ?m ''Greet'' \<noteq> 2 ^ (LENGTH(64) - 1) - 1"
    by (simp add: Greeter_mock_def New_def)
  from fresh_mock [where m = ?m and n = "''Greet''" and ?t0.0 = "[]" and u = 0
         and data = Greeter_methods and structName = "''GreeterMock''"
         and op = "Call ''Greet'' [''Ann'']"] h
  show ?thesis by blast
qed


end
